theory Spec2Isabelle
  imports Main
begin

section \<open>The service bridge of xcode-index-mcp (server.py)\<close>

text \<open>
  The development embeds \<^verbatim>\<open>src/xcode_index_mcp/server.py\<close>: the class
  \<^verbatim>\<open>SwiftService\<close> (start, stop, connect, ensure_connected, send_request,
  _cleanup) and the tool functions built on it. Every call into the operating system,
  into asyncio or into the worker is an outcome supplied by the caller of the model (an
  \<open>env\<close> record), and every such call that the code performs is appended to the
  \<open>effects\<close> of the state, so that "no request was sent" and "no connection was
  opened" are statements about that list.
\<close>

subsection \<open>Values\<close>

text \<open>
  A Python float: a finite one is a mantissa times a power of two; the others are the
  infinities and NaN.
\<close>

datatype pyfloat = Finite int int | PosInfinity | NegInfinity | NaN

text \<open>
  What \<^verbatim>\<open>json.loads\<close> returns and \<^verbatim>\<open>json.dumps\<close> accepts, and what a tool function
  can be given as an argument: None, bool, int, float, str, list, dict. A dict is an
  association list in insertion order.
\<close>

datatype json =
    JNull
  | JBool bool
  | JInt int
  | JFloat pyfloat
  | JStr string
  | JArr "json list"
  | JObj "(string \<times> json) list"

text \<open>Python truthiness (\<^verbatim>\<open>if x:\<close>, \<^verbatim>\<open>x and y\<close>) of such a value.\<close>

fun truthy :: "json \<Rightarrow> bool" where
  "truthy JNull = False"
| "truthy (JBool b) = b"
| "truthy (JInt i) = (i \<noteq> 0)"
| "truthy (JFloat (Finite m e)) = (m \<noteq> 0)"
| "truthy (JFloat f) = True"
| "truthy (JStr s) = (s \<noteq> [])"
| "truthy (JArr xs) = (xs \<noteq> [])"
| "truthy (JObj kvs) = (kvs \<noteq> [])"

text \<open>\<^verbatim>\<open>mcp.types\<close>: the two error codes the file uses.\<close>

datatype error_code = INTERNAL_ERROR | INVALID_PARAMS

text \<open>
  Exceptions. \<open>McpError\<close> carries the \<^verbatim>\<open>ErrorData\<close> (code, message);
  \<open>JSONDecodeError\<close> and every other subclass of \<^verbatim>\<open>Exception\<close> carry the text
  that \<^verbatim>\<open>str(e)\<close> gives.
\<close>

datatype exn =
    McpError error_code string
  | JSONDecodeError string
  | PyException string

text \<open>\<^verbatim>\<open>str(e)\<close>: \<^verbatim>\<open>McpError.__init__\<close> passes \<^verbatim>\<open>error.message\<close> to \<^verbatim>\<open>Exception\<close>.\<close>

fun exn_str :: "exn \<Rightarrow> string" where
  "exn_str (McpError c m) = m"
| "exn_str (JSONDecodeError m) = m"
| "exn_str (PyException m) = m"

text \<open>
  Python built-ins whose text the file formats into messages but does not define: they
  are parameters of the model. \<open>py_repr\<close> is \<^verbatim>\<open>repr\<close> (and so \<^verbatim>\<open>str\<close> of anything but
  a string), \<open>py_type_error\<close> the text of the \<^verbatim>\<open>TypeError\<close> raised when a value
  that is no container is used as one, \<open>json_loads\<close> is \<^verbatim>\<open>json.loads\<close> after
  \<^verbatim>\<open>bytes.decode\<close> (\<open>Inl\<close> a \<^verbatim>\<open>JSONDecodeError\<close>, or the \<^verbatim>\<open>UnicodeDecodeError\<close>
  of the decoding), \<open>json_dumps\<close> is \<^verbatim>\<open>json.dumps\<close>. \<open>int_max_str_digits\<close> is
  \<^verbatim>\<open>sys.get_int_max_str_digits()\<close> (4300 unless the interpreter is told otherwise, 0 for
  no limit) and \<open>int_str_error\<close> the text of the \<^verbatim>\<open>ValueError\<close> that \<^verbatim>\<open>str\<close> raises
  for an int with more decimal digits than that.
\<close>

record builtins =
  py_repr :: "json \<Rightarrow> string"
  py_type_error :: "json \<Rightarrow> string"
  json_loads :: "string \<Rightarrow> exn + json"
  json_dumps :: "json \<Rightarrow> exn + string"
  int_max_str_digits :: nat
  int_str_error :: string

text \<open>\<^verbatim>\<open>str\<close> of an int is its decimal form.\<close>

definition digit :: "nat \<Rightarrow> char" where
  "digit d = char_of (48 + d)"

function str_nat :: "nat \<Rightarrow> string" where
  "str_nat n = (if n < 10 then [digit n] else str_nat (n div 10) @ [digit (n mod 10)])"
  by pat_completeness auto
termination
  by (relation "measure id") auto

definition str_int :: "int \<Rightarrow> string" where
  "str_int i = (if i < 0 then CHR ''-'' # str_nat (nat (- i)) else str_nat (nat i))"

text \<open>
  \<^verbatim>\<open>str(v)\<close> of a value of a decoded response: a string is itself; None, bool and
  int have fixed texts; a float, a list or a dict is shown by its \<^verbatim>\<open>repr\<close>. (An int
  of a decoded response is within the digit limit: \<^verbatim>\<open>json.loads\<close> refuses a longer
  literal.)
\<close>

definition py_str :: "builtins \<Rightarrow> json \<Rightarrow> string" where
  "py_str B v =
     (case v of
        JStr s \<Rightarrow> s
      | JNull \<Rightarrow> ''None''
      | JBool b \<Rightarrow> (if b then ''True'' else ''False'')
      | JInt i \<Rightarrow> str_int i
      | _ \<Rightarrow> py_repr B v)"

text \<open>
  \<^verbatim>\<open>str(v)\<close> of an argument, which can be any int: for an int with more decimal
  digits than \<open>int_max_str_digits\<close> (when that is not 0) \<^verbatim>\<open>str\<close> raises
  \<^verbatim>\<open>ValueError\<close>; the sign is not counted.
\<close>

definition str_checked :: "builtins \<Rightarrow> json \<Rightarrow> exn + string" where
  "str_checked B v =
     (case v of
        JInt i \<Rightarrow>
          if 0 < int_max_str_digits B \<and> int_max_str_digits B < length (str_nat (nat \<bar>i\<bar>))
          then Inl (PyException (int_str_error B))
          else Inr (str_int i)
      | _ \<Rightarrow> Inr (py_str B v))"

subsection \<open>Reading the response (send_request, lines 184-203)\<close>

text \<open>
  \<^verbatim>\<open>"error" in response\<close>: key membership for a dict, element membership for a list,
  substring test for a string, \<^verbatim>\<open>TypeError\<close> for anything else.
\<close>

fun is_infix :: "string \<Rightarrow> string \<Rightarrow> bool" where
  "is_infix p [] = (p = [])"
| "is_infix p (c # cs) = (take (length p) (c # cs) = p \<or> is_infix p cs)"

definition py_in :: "builtins \<Rightarrow> string \<Rightarrow> json \<Rightarrow> exn + bool" where
  "py_in B k v =
     (case v of
        JObj kvs \<Rightarrow> Inr (k \<in> set (map fst kvs))
      | JArr xs \<Rightarrow> Inr (JStr k \<in> set xs)
      | JStr s \<Rightarrow> Inr (is_infix k s)
      | _ \<Rightarrow> Inl (PyException (py_type_error B v)))"

text \<open>
  \<^verbatim>\<open>response["error"]\<close>: the value of the key in a dict, \<^verbatim>\<open>KeyError\<close> when it is
  absent (\<^verbatim>\<open>str\<close> of a \<^verbatim>\<open>KeyError\<close> is the \<^verbatim>\<open>repr\<close> of the key), \<^verbatim>\<open>TypeError\<close> for
  a string key on anything else.
\<close>

definition py_getitem :: "builtins \<Rightarrow> json \<Rightarrow> string \<Rightarrow> exn + json" where
  "py_getitem B v k =
     (case v of
        JObj kvs \<Rightarrow>
          (case map_of kvs k of
             Some x \<Rightarrow> Inr x
           | None \<Rightarrow> Inl (PyException (py_repr B (JStr k))))
      | _ \<Rightarrow> Inl (PyException (py_type_error B v)))"

text \<open>\<^verbatim>\<open>isinstance(result, dict)\<close>.\<close>

fun is_dict :: "json \<Rightarrow> bool" where
  "is_dict (JObj kvs) = True"
| "is_dict v = False"

text \<open>
  The statements of the \<^verbatim>\<open>try\<close> body after the response is decoded (lines 184 to 203),
  with what each \<^verbatim>\<open>raise\<close> raises there, before the \<^verbatim>\<open>except\<close> clauses of the same
  \<^verbatim>\<open>try\<close> see it.
\<close>

definition interpret_response :: "builtins \<Rightarrow> json \<Rightarrow> exn + json" where
  "interpret_response B response =
     (case py_in B ''error'' response of
        Inl e \<Rightarrow> Inl e
      | Inr has_error \<Rightarrow>
          (case (if has_error then py_getitem B response ''error'' else Inr (JBool False)) of
             Inl e \<Rightarrow> Inl e
           | Inr err \<Rightarrow>
               if has_error \<and> truthy err then Inl (McpError INTERNAL_ERROR (py_str B err))
               else
                 (case py_getitem B response ''result'' of
                    Inl e \<Rightarrow> Inl e
                  | Inr result \<Rightarrow>
                      if is_dict result then
                        (case py_in B ''error'' result of
                           Inl e \<Rightarrow> Inl e
                         | Inr False \<Rightarrow> Inr result
                         | Inr True \<Rightarrow>
                             (case py_getitem B result ''error'' of
                                Inl e \<Rightarrow> Inl e
                              | Inr rerr \<Rightarrow> Inl (McpError INVALID_PARAMS (py_str B rerr))))
                      else Inr result)))"

text \<open>
  The \<^verbatim>\<open>except\<close> clauses of \<^verbatim>\<open>send_request\<close> (lines 205 to 220), in their order:
  \<^verbatim>\<open>json.JSONDecodeError\<close> first, then \<^verbatim>\<open>Exception\<close>, which \<^verbatim>\<open>McpError\<close> is a subclass
  of. Everything raised inside the \<^verbatim>\<open>try\<close> leaves as an \<^verbatim>\<open>McpError\<close> with code
  \<^verbatim>\<open>INTERNAL_ERROR\<close>.
\<close>

fun send_request_except :: "exn \<Rightarrow> exn" where
  "send_request_except (JSONDecodeError m) =
     McpError INTERNAL_ERROR (''Failed to decode Swift service response: '' @ m)"
| "send_request_except e = McpError INTERNAL_ERROR (''Swift service error: '' @ exn_str e)"

definition wrap_try :: "exn + 'a \<Rightarrow> exn + 'a" where
  "wrap_try r = (case r of Inl e \<Rightarrow> Inl (send_request_except e) | Inr x \<Rightarrow> Inr x)"

subsection \<open>The service state\<close>

text \<open>
  \<^verbatim>\<open>SwiftService\<close> holds \<^verbatim>\<open>reader\<close>, \<^verbatim>\<open>writer\<close> and \<^verbatim>\<open>swift_process\<close>, each
  \<^verbatim>\<open>None\<close> at first (host and port are constants). A connection opened by
  \<^verbatim>\<open>asyncio.open_connection\<close> has an identity; the writer object also remembers that
  \<^verbatim>\<open>close()\<close> was called on it. A worker process is its pid.
\<close>

record stream_writer =
  conn :: nat
  closing :: bool

datatype signal = SIGTERM | SIGKILL

text \<open>The calls out of the process, in the order the code makes them.\<close>

datatype effect =
    Popen
  | Sleep
  | OpenConnection
  | WriterClose nat
  | WaitClosed nat
  | Killpg nat signal
  | ProcWait nat
  | Write nat string
  | Drain nat
  | Readline nat
  | OsExit nat

record service =
  reader :: "nat option"
  writer :: "stream_writer option"
  swift_process :: "nat option"
  effects :: "effect list"

definition initial :: service where
  "initial = \<lparr>reader = None, writer = None, swift_process = None, effects = []\<rparr>"

definition emit :: "effect \<Rightarrow> service \<Rightarrow> service" where
  "emit e s = s\<lparr>effects := effects s @ [e]\<rparr>"

text \<open>
  What the outside answers. \<open>signal_outcome\<close> is the outcome of
  \<^verbatim>\<open>os.killpg(os.getpgid(pid), sig)\<close> on the worker's own process group,
  \<open>wait_outcome\<close> that of \<^verbatim>\<open>Popen.wait(timeout=2)\<close>.
\<close>

datatype signal_outcome = Delivered | ProcessLookupError

datatype wait_outcome = Exited | TimeoutExpired

record env =
  spawn :: "exn + nat"
  open_connection :: "exn + nat"
  wait_closed :: "exn option"
  sigterm :: signal_outcome
  proc_wait :: wait_outcome
  sigkill :: signal_outcome
  request_id :: string
  write_result :: "exn option"
  drain_result :: "exn option"
  readline_result :: "exn + string"

subsection \<open>SwiftService\<close>

text \<open>
  The body shared by \<^verbatim>\<open>_cleanup\<close> (lines 83 to 95) and \<^verbatim>\<open>stop\<close> (lines 132 to 144):
  SIGTERM to the group and a wait; on \<^verbatim>\<open>ProcessLookupError\<close> or
  \<^verbatim>\<open>TimeoutExpired\<close> a SIGKILL whose \<^verbatim>\<open>ProcessLookupError\<close> is passed over; then the
  field is cleared.
\<close>

definition force_kill :: "env \<Rightarrow> nat \<Rightarrow> service \<Rightarrow> service" where
  "force_kill E pid s =
     (let s1 = emit (Killpg pid SIGKILL) s
      in case sigkill E of Delivered \<Rightarrow> s1 | ProcessLookupError \<Rightarrow> s1)"

definition terminate_process :: "env \<Rightarrow> service \<Rightarrow> service" where
  "terminate_process E s =
     (case swift_process s of
        None \<Rightarrow> s
      | Some pid \<Rightarrow>
          (let s1 = emit (Killpg pid SIGTERM) s;
               s2 = (case sigterm E of
                       ProcessLookupError \<Rightarrow> force_kill E pid s1
                     | Delivered \<Rightarrow>
                         (let s1' = emit (ProcWait pid) s1
                          in case proc_wait E of
                               Exited \<Rightarrow> s1'
                             | TimeoutExpired \<Rightarrow> force_kill E pid s1'))
           in s2\<lparr>swift_process := None\<rparr>))"

definition cleanup :: "env \<Rightarrow> service \<Rightarrow> service" where
  "cleanup E s = terminate_process E s"

text \<open>
  \<^verbatim>\<open>stop\<close>: the writer, when there is one, is closed and awaited first; an exception of
  \<^verbatim>\<open>wait_closed\<close> leaves \<^verbatim>\<open>stop\<close> there. Neither \<^verbatim>\<open>reader\<close> nor \<^verbatim>\<open>writer\<close> is
  assigned.
\<close>

definition close_writer :: "env \<Rightarrow> service \<Rightarrow> (exn + unit) \<times> service" where
  "close_writer E s =
     (case writer s of
        None \<Rightarrow> (Inr (), s)
      | Some w \<Rightarrow>
          (let s1 = emit (WaitClosed (conn w))
                      (emit (WriterClose (conn w)) (s\<lparr>writer := Some (w\<lparr>closing := True\<rparr>)\<rparr>))
           in case wait_closed E of
                Some e \<Rightarrow> (Inl e, s1)
              | None \<Rightarrow> (Inr (), s1)))"

definition stop :: "env \<Rightarrow> service \<Rightarrow> (exn + unit) \<times> service" where
  "stop E s =
     (case close_writer E s of
        (Inl e, s1) \<Rightarrow> (Inl e, s1)
      | (Inr u, s1) \<Rightarrow> (Inr (), terminate_process E s1))"

text \<open>\<^verbatim>\<open>connect\<close>: opens a connection only when a handle is missing.\<close>

definition connect :: "env \<Rightarrow> service \<Rightarrow> (exn + unit) \<times> service" where
  "connect E s =
     (if reader s = None \<or> writer s = None then
        (let s1 = emit OpenConnection s
         in case open_connection E of
              Inl e \<Rightarrow>
                (Inl (McpError INTERNAL_ERROR
                        (''Failed to connect to Swift service: '' @ exn_str e)), s1)
            | Inr c \<Rightarrow>
                (Inr (), s1\<lparr>reader := Some c, writer := Some \<lparr>conn = c, closing = False\<rparr>\<rparr>))
      else (Inr (), s))"

text \<open>\<^verbatim>\<open>start\<close>: spawns only when no process is stored, sleeps, connects.\<close>

definition start :: "env \<Rightarrow> service \<Rightarrow> (exn + unit) \<times> service" where
  "start E s =
     (if swift_process s = None then
        (let s1 = emit Popen s
         in case spawn E of
              Inl e \<Rightarrow> (Inl e, s1)
            | Inr pid \<Rightarrow> connect E (emit Sleep (s1\<lparr>swift_process := Some pid\<rparr>)))
      else (Inr (), s))"

definition ensure_connected :: "env \<Rightarrow> service \<Rightarrow> (exn + unit) \<times> service" where
  "ensure_connected E s =
     (if swift_process s = None then start E s
      else if reader s = None \<or> writer s = None then connect E s
      else (Inr (), s))"

text \<open>
  The \<^verbatim>\<open>try\<close> body of \<^verbatim>\<open>send_request\<close> up to the decoded response (lines 172 to
  182): one write, one drain, one readline. A \<^verbatim>\<open>None\<close> handle is an
  \<^verbatim>\<open>AttributeError\<close>.
\<close>

definition attribute_error :: "string \<Rightarrow> exn" where
  "attribute_error name =
     PyException ([CHR 0x27] @ ''NoneType'' @ [CHR 0x27] @ '' object has no attribute ''
                  @ [CHR 0x27] @ name @ [CHR 0x27])"

definition build_request :: "string \<Rightarrow> string \<Rightarrow> json \<Rightarrow> json" where
  "build_request rid method params =
     JObj [(''id'', JStr rid), (''method'', JStr method), (''params'', params)]"

definition exchange :: "builtins \<Rightarrow> env \<Rightarrow> service \<Rightarrow> string \<Rightarrow> json \<Rightarrow> (exn + json) \<times> service" where
  "exchange B E s method params =
     (case writer s of
        None \<Rightarrow> (Inl (attribute_error ''write''), s)
      | Some w \<Rightarrow>
          (case json_dumps B (build_request (request_id E) method params) of
             Inl e \<Rightarrow> (Inl e, s)
           | Inr line \<Rightarrow>
               (let s1 = emit (Write (conn w) (line @ [CHR 0x0A])) s
                in case write_result E of
                     Some e \<Rightarrow> (Inl e, s1)
                   | None \<Rightarrow>
                       (let s2 = emit (Drain (conn w)) s1
                        in case drain_result E of
                             Some e \<Rightarrow> (Inl e, s2)
                           | None \<Rightarrow>
                               (case reader s2 of
                                  None \<Rightarrow>
                                    (Inl (attribute_error ''readline''), s2)
                                | Some r \<Rightarrow>
                                    (let s3 = emit (Readline r) s2
                                     in case readline_result E of
                                          Inl e \<Rightarrow> (Inl e, s3)
                                        | Inr data \<Rightarrow> (json_loads B data, s3)))))))"

definition try_body :: "builtins \<Rightarrow> env \<Rightarrow> service \<Rightarrow> string \<Rightarrow> json \<Rightarrow> (exn + json) \<times> service" where
  "try_body B E s method params =
     (case exchange B E s method params of
        (Inl e, s1) \<Rightarrow> (Inl e, s1)
      | (Inr response, s1) \<Rightarrow> (interpret_response B response, s1))"

text \<open>
  \<^verbatim>\<open>send_request\<close>: \<^verbatim>\<open>ensure_connected\<close> runs before the \<^verbatim>\<open>try\<close>, so what it
  raises leaves as it is; what the \<^verbatim>\<open>try\<close> body raises goes through its \<^verbatim>\<open>except\<close>
  clauses.
\<close>

definition send_request :: "builtins \<Rightarrow> env \<Rightarrow> service \<Rightarrow> string \<Rightarrow> json \<Rightarrow> (exn + json) \<times> service" where
  "send_request B E s method params =
     (case ensure_connected E s of
        (Inl e, s1) \<Rightarrow> (Inl e, s1)
      | (Inr u, s1) \<Rightarrow>
          (case try_body B E s1 method params of (r, s2) \<Rightarrow> (wrap_try r, s2)))"

text \<open>
  What the signal handler meets (lines 413 to 417). \<open>loop_running\<close>: an event loop
  is running in the thread when the signal arrives, as it is for the whole of
  \<^verbatim>\<open>mcp.run()\<close>. \<open>foreign_close\<close>: what \<^verbatim>\<open>writer.close()\<close> raises inside the loop
  that \<^verbatim>\<open>asyncio.run\<close> creates; the writer is bound to the loop of the call that
  connected, and when that loop is closed, \<^verbatim>\<open>close()\<close> raises \<^verbatim>\<open>RuntimeError\<close>.
\<close>

record signal_context =
  loop_running :: bool
  foreign_close :: "exn option"

text \<open>
  \<^verbatim>\<open>stop\<close> (lines 125 to 144) with the outcome of \<^verbatim>\<open>self.writer.close()\<close> given: an
  exception of \<^verbatim>\<open>close()\<close> leaves \<^verbatim>\<open>stop\<close> before \<^verbatim>\<open>wait_closed()\<close>; the transport
  has marked itself closing by then. With no exception of \<^verbatim>\<open>close()\<close> this is
  \<open>stop\<close>.
\<close>

definition stop_under :: "exn option \<Rightarrow> env \<Rightarrow> service \<Rightarrow> (exn + unit) \<times> service" where
  "stop_under c E s =
     (case writer s of
        None \<Rightarrow> (Inr (), terminate_process E s)
      | Some w \<Rightarrow>
          (let s1 = emit (WriterClose (conn w)) (s\<lparr>writer := Some (w\<lparr>closing := True\<rparr>)\<rparr>)
           in case c of
                Some e \<Rightarrow> (Inl e, s1)
              | None \<Rightarrow>
                  (let s2 = emit (WaitClosed (conn w)) s1
                   in case wait_closed E of
                        Some e \<Rightarrow> (Inl e, s2)
                      | None \<Rightarrow> (Inr (), terminate_process E s2))))"

text \<open>
  \<^verbatim>\<open>handle_shutdown\<close> (lines 413 to 417): \<^verbatim>\<open>asyncio.run(swift_service.stop())\<close>
  raises \<^verbatim>\<open>RuntimeError\<close> when an event loop is running in the thread, before
  \<^verbatim>\<open>stop\<close> starts; otherwise it runs \<^verbatim>\<open>stop\<close> to its end in a loop of its own, and
  \<^verbatim>\<open>os._exit(0)\<close> follows. An exception of \<^verbatim>\<open>asyncio.run\<close> or of \<^verbatim>\<open>stop\<close> leaves the
  handler before the exit.
\<close>

definition handle_shutdown ::
  "signal_context \<Rightarrow> env \<Rightarrow> service \<Rightarrow> (exn + unit) \<times> service" where
  "handle_shutdown C E s =
     (if loop_running C then
        (Inl (PyException ''asyncio.run() cannot be called from a running event loop''), s)
      else
        (case stop_under (foreign_close C) E s of
           (Inl e, s1) \<Rightarrow> (Inl e, s1)
         | (Inr u, s1) \<Rightarrow> (Inr (), emit (OsExit 0) s1)))"

subsection \<open>The tool functions\<close>

text \<open>
  The \<^verbatim>\<open>except\<close> clauses shared by the tool functions: \<^verbatim>\<open>except McpError: raise\<close>
  first, then \<^verbatim>\<open>except Exception\<close>, which wraps the text behind a prefix.
\<close>

fun tool_except :: "string \<Rightarrow> exn \<Rightarrow> exn" where
  "tool_except prefix (McpError c m) = McpError c m"
| "tool_except prefix e = McpError INTERNAL_ERROR (prefix @ exn_str e)"

definition tool_result :: "string \<Rightarrow> (exn + json) \<times> service \<Rightarrow> (exn + json) \<times> service" where
  "tool_result prefix r =
     (case r of
        (Inl e, s) \<Rightarrow> (Inl (tool_except prefix e), s)
      | (Inr v, s) \<Rightarrow> (Inr v, s))"

text \<open>\<^verbatim>\<open>",".join(xs)\<close>.\<close>

fun join :: "string \<Rightarrow> string list \<Rightarrow> string" where
  "join sep [] = []"
| "join sep [x] = x"
| "join sep (x # y # ys) = x @ sep @ join sep (y # ys)"

definition valid_roles :: "string list" where
  "valid_roles = [''reference'', ''definition'']"

text \<open>\<^verbatim>\<open>get_occurrences\<close> (lines 285 to 321). \<^verbatim>\<open>usr\<close> is a \<^verbatim>\<open>str\<close>, so
  \<^verbatim>\<open>str(usr)\<close> is \<^verbatim>\<open>usr\<close>; the message shows both lists by their \<^verbatim>\<open>repr\<close>.\<close>

definition get_occurrences ::
  "builtins \<Rightarrow> env \<Rightarrow> service \<Rightarrow> string \<Rightarrow> string list \<Rightarrow> (exn + json) \<times> service" where
  "get_occurrences B E s usr roles =
     (let invalid_roles = filter (\<lambda>role. role \<notin> set valid_roles) roles
      in if invalid_roles \<noteq> [] then
           (Inl (McpError INVALID_PARAMS
                   (''Invalid roles: '' @ py_repr B (JArr (map JStr invalid_roles))
                    @ ''. Must be one of: '' @ py_repr B (JArr (map JStr valid_roles)))), s)
         else
           tool_result ''Failed to get symbol occurrences: ''
             (send_request B E s ''get_occurrences''
                (JObj [(''usr'', JStr usr), (''roles'', JStr (join '','' roles))])))"

text \<open>
  \<^verbatim>\<open>symbol_occurrences\<close> (lines 248 to 282). The argument is any Python value;
  \<^verbatim>\<open>isinstance(lineNumber, int)\<close> holds of an int and of a bool (a subclass of int,
  \<^verbatim>\<open>True\<close> being 1 and \<^verbatim>\<open>False\<close> 0 in the comparison), and of nothing else: not of
  a float. The dict of line 268 is built inside the \<^verbatim>\<open>try\<close>: a \<^verbatim>\<open>ValueError\<close> of
  \<^verbatim>\<open>str(lineNumber)\<close> goes to \<^verbatim>\<open>except Exception\<close> before anything is sent.
\<close>

fun int_value :: "json \<Rightarrow> int option" where
  "int_value (JInt i) = Some i"
| "int_value (JBool b) = Some (if b then 1 else 0)"
| "int_value v = None"

definition line_number_ok :: "json \<Rightarrow> bool" where
  "line_number_ok v = (case int_value v of None \<Rightarrow> False | Some i \<Rightarrow> 1 \<le> i)"

definition symbol_occurrences ::
  "builtins \<Rightarrow> env \<Rightarrow> service \<Rightarrow> string \<Rightarrow> json \<Rightarrow> (exn + json) \<times> service" where
  "symbol_occurrences B E s filePath lineNumber =
     (if line_number_ok lineNumber then
        (case str_checked B lineNumber of
           Inl e \<Rightarrow> (Inl (tool_except ''Failed to get symbol occurrences: '' e), s)
         | Inr text \<Rightarrow>
             tool_result ''Failed to get symbol occurrences: ''
               (send_request B E s ''symbol_occurrences''
                  (JObj [(''filePath'', JStr filePath), (''lineNumber'', JStr text)])))
      else (Inl (McpError INVALID_PARAMS ''lineNumber must be a positive integer''), s))"

subsection \<open>The request line\<close>

text \<open>
  In this part a Python \<^verbatim>\<open>str\<close> is the list of its code points, since the escaping
  goes by code point; the bytes of a line are a \<open>string\<close>. A request is a dict of
  strings and dicts.
\<close>

type_synonym pystr = "nat list"

datatype wire_value = WStr pystr | WObj "(pystr \<times> wire_value) list"

text \<open>Modelled from the spec: the digits of \<^verbatim>\<open>json.dumps\<close>'s \<^verbatim>\<open>\uXXXX\<close> escapes (the
  format \<^verbatim>\<open>{0:04x}\<close>: four lowercase hexadecimal digits); the standard library is not
  under src/.\<close>

definition hex_digit :: "nat \<Rightarrow> char" where
  "hex_digit d = (if d < 10 then char_of (48 + d) else char_of (87 + d))"

text \<open>Modelled from the spec: four hexadecimal digits of a number below 65536, as
  \<^verbatim>\<open>json.dumps\<close> writes them.\<close>

definition hex4 :: "nat \<Rightarrow> string" where
  "hex4 n = [hex_digit (n div 4096 mod 16), hex_digit (n div 256 mod 16),
             hex_digit (n div 16 mod 16), hex_digit (n mod 16)]"

text \<open>Modelled from the spec: one \<^verbatim>\<open>\uXXXX\<close> escape of \<^verbatim>\<open>json.dumps\<close>.\<close>

definition u_escape :: "nat \<Rightarrow> string" where
  "u_escape n = CHR 0x5C # CHR ''u'' # hex4 n"

text \<open>Modelled from the spec: how \<^verbatim>\<open>json.dumps\<close> (with its default
  \<^verbatim>\<open>ensure_ascii=True\<close>, which line 178 uses) writes one code point of a string: the
  short escapes of backslash, quote, \<^verbatim>\<open>\b \f \n \r \t\<close>; the character itself from
  space to tilde; a \<^verbatim>\<open>\uXXXX\<close> escape below 0x10000; a pair of surrogate escapes
  above (\<^verbatim>\<open>0xd800 | (n >> 10)\<close> and \<^verbatim>\<open>0xdc00 | (n & 0x3ff)\<close> for
  \<^verbatim>\<open>n = c - 0x10000\<close>, written here with \<open>+\<close>, \<open>div\<close> and \<open>mod\<close>). The encoder is
  the standard library's and is not under src/; section 4.3 of the spec says only that
  the request is serialised to a single self-describing line.\<close>

definition encode_char :: "nat \<Rightarrow> string" where
  "encode_char c =
     (if c = 0x5C then [CHR 0x5C, CHR 0x5C]
      else if c = 0x22 then [CHR 0x5C, CHR 0x22]
      else if c = 0x08 then [CHR 0x5C, CHR ''b'']
      else if c = 0x0C then [CHR 0x5C, CHR ''f'']
      else if c = 0x0A then [CHR 0x5C, CHR ''n'']
      else if c = 0x0D then [CHR 0x5C, CHR ''r'']
      else if c = 0x09 then [CHR 0x5C, CHR ''t'']
      else if 0x20 \<le> c \<and> c \<le> 0x7E then [char_of c]
      else if c < 0x10000 then u_escape c
      else u_escape (0xD800 + (c - 0x10000) div 1024 mod 1024)
           @ u_escape (0xDC00 + (c - 0x10000) mod 1024))"

text \<open>Modelled from the spec: a string between quotes, as \<^verbatim>\<open>json.dumps\<close> writes
  it.\<close>

definition encode_basestring_ascii :: "pystr \<Rightarrow> string" where
  "encode_basestring_ascii s = CHR 0x22 # concat (map encode_char s) @ [CHR 0x22]"

text \<open>Modelled from the spec: \<^verbatim>\<open>json.dumps\<close> of a string or of a dict, with the
  default separators \<^verbatim>\<open>", "\<close> and \<^verbatim>\<open>": "\<close> and the members in the dict's order.\<close>

primrec dumps :: "wire_value \<Rightarrow> string" where
  "dumps (WStr s) = encode_basestring_ascii s"
| "dumps (WObj kvs) =
     CHR ''{'' #
     join '', '' (map (\<lambda>(k, t). encode_basestring_ascii k @ '': '' @ t)
                    (map (map_prod id dumps) kvs))
     @ [CHR ''}'']"

text \<open>The code points of an ASCII or Latin-1 literal.\<close>

definition cps :: "string \<Rightarrow> pystr" where
  "cps s = map of_char s"

text \<open>Modelled from the spec: the value of a hexadecimal digit, of either case, for
  the decoder of a line; the decoder (the worker's, or \<^verbatim>\<open>json.loads\<close>) is not under
  src/.\<close>

definition hex_value :: "char \<Rightarrow> nat option" where
  "hex_value c =
     (let n = of_char c :: nat
      in if 48 \<le> n \<and> n \<le> 57 then Some (n - 48)
         else if 97 \<le> n \<and> n \<le> 102 then Some (n - 87)
         else if 65 \<le> n \<and> n \<le> 70 then Some (n - 55)
         else None)"

text \<open>Modelled from the spec: the number after \<^verbatim>\<open>\u\<close>, four hexadecimal
  digits, as a JSON decoder reads it.\<close>

definition decode_uXXXX :: "string \<Rightarrow> nat option" where
  "decode_uXXXX s =
     (case s of
        a # b # c # d # r \<Rightarrow>
          (case (hex_value a, hex_value b, hex_value c, hex_value d) of
             (Some x, Some y, Some z, Some w) \<Rightarrow> Some (((x * 16 + y) * 16 + z) * 16 + w)
           | _ \<Rightarrow> None)
      | _ \<Rightarrow> None)"

text \<open>Modelled from the spec: the one-letter escapes of JSON.\<close>

definition backslash :: "char \<Rightarrow> nat option" where
  "backslash e =
     (if e = CHR 0x22 then Some 0x22
      else if e = CHR 0x5C then Some 0x5C
      else if e = CHR ''/'' then Some 0x2F
      else if e = CHR ''b'' then Some 0x08
      else if e = CHR ''f'' then Some 0x0C
      else if e = CHR ''n'' then Some 0x0A
      else if e = CHR ''r'' then Some 0x0D
      else if e = CHR ''t'' then Some 0x09
      else None)"

text \<open>Modelled from the spec: one decoded code point put before the rest of the
  decoded string.\<close>

definition cons_result :: "nat \<Rightarrow> (pystr \<times> string) option \<Rightarrow> (pystr \<times> string) option" where
  "cons_result c r = (case r of None \<Rightarrow> None | Some (s, rest) \<Rightarrow> Some (c # s, rest))"

text \<open>Modelled from the spec: the decoder of a JSON string, after its opening quote,
  as \<^verbatim>\<open>json.loads\<close> does it in strict mode: it ends at the closing quote; a backslash
  starts an escape; a \<^verbatim>\<open>\uXXXX\<close> that is a high surrogate and is followed by a
  \<^verbatim>\<open>\uXXXX\<close> that is a low surrogate gives one code point; a control character is an
  error. A byte from 0x80 on is refused here (the encoded line has none). It returns the
  decoded string and the rest of the input, or \<open>None\<close> for an error. The decoder
  of the line is not under src/; section 4.3 of the spec says that it reads one
  line-delimited unit and deserialises it.\<close>

function scanstring :: "string \<Rightarrow> (pystr \<times> string) option" where
  "scanstring s =
     (case s of
        [] \<Rightarrow> None
      | c # r \<Rightarrow>
          if c = CHR 0x22 then Some ([], r)
          else if c = CHR 0x5C then
            (case r of
               [] \<Rightarrow> None
             | e # r1 \<Rightarrow>
                 if e = CHR ''u'' then
                   (case decode_uXXXX r1 of
                      None \<Rightarrow> None
                    | Some uni \<Rightarrow>
                        if 0xD800 \<le> uni \<and> uni \<le> 0xDBFF \<and> take 2 (drop 4 r1) = [CHR 0x5C, CHR ''u'']
                        then
                          (case decode_uXXXX (drop 6 r1) of
                             None \<Rightarrow> None
                           | Some uni2 \<Rightarrow>
                               if 0xDC00 \<le> uni2 \<and> uni2 \<le> 0xDFFF then
                                 cons_result
                                   (0x10000 + ((uni - 0xD800) * 1024 + (uni2 - 0xDC00)))
                                   (scanstring (drop 10 r1))
                               else cons_result uni (scanstring (drop 4 r1)))
                        else cons_result uni (scanstring (drop 4 r1)))
                 else
                   (case backslash e of
                      None \<Rightarrow> None
                    | Some ch \<Rightarrow> cons_result ch (scanstring r1)))
          else if (of_char c :: nat) < 0x20 \<or> 0x80 \<le> (of_char c :: nat) then None
          else cons_result (of_char c) (scanstring r))"
  by pat_completeness auto
termination
  by (relation "measure length") auto


text \<open>
  Unicode text: the code points of a string are Unicode scalar values, that is, below
  0x110000 and no surrogates. This is what UTF-8, the encoding of the wire protocol, can
  carry. (A Python \<^verbatim>\<open>str\<close> can also hold surrogates; a high one directly before a low
  one is written as the same two escapes as the one code point they stand for.)
\<close>

definition unicode_scalar :: "nat \<Rightarrow> bool" where
  "unicode_scalar c = (c < 0xD800 \<or> (0xE000 \<le> c \<and> c < 0x110000))"

definition unicode_text :: "pystr \<Rightarrow> bool" where
  "unicode_text s = list_all unicode_scalar s"

text \<open>Modelled from the spec: the white space of JSON.\<close>

definition is_ws :: "char \<Rightarrow> bool" where
  "is_ws c = (c = CHR '' '' \<or> c = CHR 0x09 \<or> c = CHR 0x0A \<or> c = CHR 0x0D)"

text \<open>Modelled from the spec: the decoder skips white space between tokens.\<close>

definition skip_ws :: "string \<Rightarrow> string" where
  "skip_ws s = dropWhile is_ws s"

text \<open>Modelled from the spec: \<^verbatim>\<open>d[k] = v\<close> on a dict in insertion order: a key that
  is there keeps its place and takes the new value, a new key goes to the end.\<close>

fun dict_set :: "'k \<Rightarrow> 'v \<Rightarrow> ('k \<times> 'v) list \<Rightarrow> ('k \<times> 'v) list" where
  "dict_set k v [] = [(k, v)]"
| "dict_set k v ((k', v') # d) = (if k' = k then (k, v) # d else (k', v') # dict_set k v d)"

text \<open>Modelled from the spec: the dict that a decoder builds from the members it
  read, in their order (a repeated key keeps the last value).\<close>

definition dict_of_pairs :: "('k \<times> 'v) list \<Rightarrow> ('k \<times> 'v) list" where
  "dict_of_pairs ps = foldl (\<lambda>d (k, v). dict_set k v d) [] ps"

text \<open>Modelled from the spec: the decoder of a value that is a string or an object,
  and of the members of an object after its opening brace, as \<^verbatim>\<open>json.loads\<close> does
  them. The first argument bounds the depth of the calls; \<open>loads\<close> gives it the
  length of the input, and every call consumes a character before it calls again.
  Arrays, numbers and literals are outside this fragment (\<open>None\<close>): a request has
  none.\<close>

fun parse_value :: "nat \<Rightarrow> string \<Rightarrow> (wire_value \<times> string) option"
  and parse_members :: "nat \<Rightarrow> string \<Rightarrow> ((pystr \<times> wire_value) list \<times> string) option" where
  "parse_value 0 s = None"
| "parse_value (Suc n) s =
     (case s of
        [] \<Rightarrow> None
      | c # r \<Rightarrow>
          if c = CHR 0x22 then
            (case scanstring r of None \<Rightarrow> None | Some (t, r1) \<Rightarrow> Some (WStr t, r1))
          else if c = CHR ''{'' then
            (case skip_ws r of
               [] \<Rightarrow> None
             | c1 # r1 \<Rightarrow>
                 if c1 = CHR ''}'' then Some (WObj [], r1)
                 else
                   (case parse_members n (c1 # r1) of
                      None \<Rightarrow> None
                    | Some (ps, r2) \<Rightarrow> Some (WObj (dict_of_pairs ps), r2)))
          else None)"
| "parse_members 0 s = None"
| "parse_members (Suc n) s =
     (case s of
        [] \<Rightarrow> None
      | c # r \<Rightarrow>
          if c = CHR 0x22 then
            (case scanstring r of
               None \<Rightarrow> None
             | Some (k, r1) \<Rightarrow>
                 (case skip_ws r1 of
                    [] \<Rightarrow> None
                  | c2 # r2 \<Rightarrow>
                      if c2 = CHR '':'' then
                        (case parse_value n (skip_ws r2) of
                           None \<Rightarrow> None
                         | Some (v, r3) \<Rightarrow>
                             (case skip_ws r3 of
                                [] \<Rightarrow> None
                              | c4 # r4 \<Rightarrow>
                                  if c4 = CHR ''}'' then Some ([(k, v)], r4)
                                  else if c4 = CHR '','' then
                                    (case parse_members n (skip_ws r4) of
                                       None \<Rightarrow> None
                                     | Some (ps, r5) \<Rightarrow> Some ((k, v) # ps, r5))
                                  else None))
                      else None))
          else None)"

text \<open>Modelled from the spec: the decoding of a line: white space, one value, white
  space, and nothing after it.\<close>

definition loads :: "string \<Rightarrow> wire_value option" where
  "loads s =
     (case parse_value (length s) (skip_ws s) of
        None \<Rightarrow> None
      | Some (v, rest) \<Rightarrow> if skip_ws rest = [] then Some v else None)"


text \<open>A dict has no key twice, and every string is Unicode text.\<close>

fun wf_value :: "wire_value \<Rightarrow> bool" where
  "wf_value (WStr s) = unicode_text s"
| "wf_value (WObj kvs) =
     (distinct (map fst kvs) \<and> list_all (\<lambda>(k, v). unicode_text k \<and> wf_value v) kvs)"

text \<open>The request of lines 172 to 176, for parameters that are strings.\<close>

definition request_value :: "pystr \<Rightarrow> pystr \<Rightarrow> (pystr \<times> pystr) list \<Rightarrow> wire_value" where
  "request_value rid method params =
     WObj [(cps ''id'', WStr rid), (cps ''method'', WStr method),
           (cps ''params'', WObj (map (\<lambda>(k, v). (k, WStr v)) params))]"

text \<open>Modelled from the spec: line 178, \<^verbatim>\<open>json.dumps(request).encode() + b'\n'\<close>,
  with \<open>dumps\<close> for the standard library's \<^verbatim>\<open>json.dumps\<close> (its output is ASCII, so
  encoding it changes nothing).\<close>

definition encode_request :: "pystr \<Rightarrow> pystr \<Rightarrow> (pystr \<times> pystr) list \<Rightarrow> string" where
  "encode_request rid method params = dumps (request_value rid method params) @ [CHR 0x0A]"

text \<open>
  A value of strings and dicts as \<open>json_dumps\<close> is given it, seen by its code points;
  \<open>None\<close> for a value with anything else inside.
\<close>

primrec to_wire :: "json \<Rightarrow> wire_value option" where
  "to_wire JNull = None"
| "to_wire (JBool b) = None"
| "to_wire (JInt i) = None"
| "to_wire (JFloat f) = None"
| "to_wire (JStr s) = Some (WStr (cps s))"
| "to_wire (JArr xs) = None"
| "to_wire (JObj kvs) =
     map_option WObj
       (those (map (\<lambda>(k, r). map_option (Pair (cps k)) r) (map (map_prod id to_wire) kvs)))"

text \<open>The text of one member of a dict.\<close>

definition member_text :: "pystr \<times> wire_value \<Rightarrow> string" where
  "member_text kv = encode_basestring_ascii (fst kv) @ '': '' @ dumps (snd kv)"


subsection \<open>Concrete states and environments\<close>

text \<open>
  A service that is started and connected, a stand-in for the built-ins that decodes
  one given line, and an outside where every call succeeds and the worker answers with
  that line.
\<close>

definition connected :: service where
  "connected = \<lparr>reader = Some 1, writer = Some \<lparr>conn = 1, closing = False\<rparr>,
                swift_process = Some 4242, effects = []\<rparr>"

definition stub_builtins :: "string \<Rightarrow> json \<Rightarrow> builtins" where
  "stub_builtins line response =
     \<lparr>py_repr = (\<lambda>v. ''<repr>''),
      py_type_error = (\<lambda>v. ''<type error>''),
      json_loads = (\<lambda>d. if d = line then Inr response
                          else Inl (JSONDecodeError ''Expecting value'')),
      json_dumps = (\<lambda>v. Inr ''<request>''),
      int_max_str_digits = 4300,
      int_str_error = ''Exceeds the limit (4300 digits) for integer string conversion''\<rparr>"

definition quiet_env :: "string \<Rightarrow> env" where
  "quiet_env line =
     \<lparr>spawn = Inr 4243, open_connection = Inr 2, wait_closed = None,
      sigterm = Delivered, proc_wait = Exited, sigkill = Delivered,
      request_id = ''140234'', write_result = None, drain_result = None,
      readline_result = Inr line\<rparr>"

definition embedded_error_line :: string where
  \<open>embedded_error_line = ''{"result": {"error": "unknown usr"}}'' @ [CHR 0x0A]\<close>

definition embedded_error_response :: json where
  "embedded_error_response = JObj [(''result'', JObj [(''error'', JStr ''unknown usr'')])]"

definition null_error_line :: string where
  \<open>null_error_line = ''{"error": null, "result": {"error": null}}'' @ [CHR 0x0A]\<close>

definition null_error_response :: json where
  "null_error_response = JObj [(''error'', JNull), (''result'', JObj [(''error'', JNull)])]"

definition falsy_error_line :: string where
  \<open>falsy_error_line = ''{"error": "", "result": {"symbols": []}}'' @ [CHR 0x0A]\<close>

definition falsy_error_response :: json where
  "falsy_error_response = JObj [(''error'', JStr []), (''result'', JObj [(''symbols'', JArr [])])]"

text \<open>The worker's answer to \<^verbatim>\<open>is_available\<close>.\<close>

definition available_line :: string where
  \<open>available_line = ''{"result": true}'' @ [CHR 0x0A]\<close>

definition available_response :: json where
  "available_response = JObj [(''result'', JBool True)]"

text \<open>
  The first input or output step of an exchange that raises, if any: the write, the
  drain or the readline.
\<close>

definition io_failure :: "env \<Rightarrow> exn option" where
  "io_failure E =
     (case write_result E of
        Some e \<Rightarrow> Some e
      | None \<Rightarrow>
          (case drain_result E of
             Some e \<Rightarrow> Some e
           | None \<Rightarrow> (case readline_result E of Inl e \<Rightarrow> Some e | Inr d \<Rightarrow> None)))"

text \<open>
  An outside where the connection is lost (\<^verbatim>\<open>drain\<close> raises
  \<^verbatim>\<open>ConnectionResetError\<close>), one where \<^verbatim>\<open>wait_closed\<close> raises it, and the state
  that a \<^verbatim>\<open>stop\<close> leaves.
\<close>

definition drop_env :: env where
  "drop_env = (quiet_env [])\<lparr>drain_result := Some (PyException ''Connection lost'')\<rparr>"

definition reset_env :: env where
  "reset_env = (quiet_env [])\<lparr>wait_closed := Some (PyException ''Connection lost'')\<rparr>"

definition stopped :: service where
  "stopped = \<lparr>reader = Some 1, writer = Some \<lparr>conn = 1, closing = True\<rparr>,
              swift_process = None, effects = []\<rparr>"

text \<open>
  An outside where the worker is already gone when it is signalled, and one where it does
  not exit within the timeout.
\<close>

definition vanished_env :: env where
  "vanished_env = (quiet_env [])\<lparr>sigterm := ProcessLookupError, sigkill := ProcessLookupError\<rparr>"

definition hanging_env :: env where
  "hanging_env = (quiet_env [])\<lparr>proc_wait := TimeoutExpired\<rparr>"



section \<open>Properties\<close>

subsection \<open>What a call returns for a decoded response\<close>

lemma send_request_response:
  assumes "ensure_connected E s = (Inr u, s1)"
    and "exchange B E s1 m p = (Inr response, s2)"
  shows "send_request B E s m p = (wrap_try (interpret_response B response), s2)"
  using assms by (simp add: send_request_def try_body_def)

lemma ensure_connected_connected: "ensure_connected E connected = (Inr (), connected)"
  by (simp add: ensure_connected_def connected_def)

lemma exchange_connected:
  "exchange (stub_builtins l r) (quiet_env l) connected m p =
     (Inr r, connected\<lparr>effects := [Write 1 (''<request>'' @ [CHR 0x0A]), Drain 1, Readline 1]\<rparr>)"
  by (simp add: exchange_def connected_def stub_builtins_def quiet_env_def emit_def)

lemma send_request_connected:
  "send_request (stub_builtins l r) (quiet_env l) connected m p =
     (wrap_try (interpret_response (stub_builtins l r) r),
      connected\<lparr>effects := [Write 1 (''<request>'' @ [CHR 0x0A]), Drain 1, Readline 1]\<rparr>)"
  by (rule send_request_response [OF ensure_connected_connected exchange_connected])

lemma py_in_dict: "py_in B k (JObj kvs) = Inr (map_of kvs k \<noteq> None)"
  by (simp add: py_in_def map_of_eq_None_iff)

lemma py_getitem_dict:
  "py_getitem B (JObj kvs) k =
     (case map_of kvs k of Some x \<Rightarrow> Inr x | None \<Rightarrow> Inl (PyException (py_repr B (JStr k))))"
  by (simp add: py_getitem_def)

lemma interpret_top_level_error:
  assumes "map_of kvs ''error'' = Some err" and "truthy err"
  shows "interpret_response B (JObj kvs) = Inl (McpError INTERNAL_ERROR (py_str B err))"
  using assms by (simp add: interpret_response_def py_in_dict py_getitem_dict)

lemma interpret_result:
  assumes "map_of kvs ''error'' = None \<or> (\<exists>err. map_of kvs ''error'' = Some err \<and> \<not> truthy err)"
    and "map_of kvs ''result'' = Some result"
  shows "interpret_response B (JObj kvs) =
     (case result of
        JObj rkvs \<Rightarrow>
          (case map_of rkvs ''error'' of
             None \<Rightarrow> Inr result
           | Some rerr \<Rightarrow> Inl (McpError INVALID_PARAMS (py_str B rerr)))
      | _ \<Rightarrow> Inr result)"
proof -
  have top: "(case py_in B ''error'' (JObj kvs) of
        Inl e \<Rightarrow> Inl e
      | Inr has_error \<Rightarrow>
          (case (if has_error then py_getitem B (JObj kvs) ''error'' else Inr (JBool False)) of
             Inl e \<Rightarrow> Inl e
           | Inr err \<Rightarrow>
               if has_error \<and> truthy err then Inl (McpError INTERNAL_ERROR (py_str B err))
               else X)) = X" for X :: "exn + json"
    using assms(1) by (auto simp: py_in_dict py_getitem_dict)
  show ?thesis
    unfolding interpret_response_def top
    using assms(2)
    by (cases result) (auto simp: py_in_dict py_getitem_dict split: option.splits)
qed

lemma wrap_try_mcp:
  "\<exists>msg. wrap_try (Inl e :: exn + json) = Inl (McpError INTERNAL_ERROR msg)"
  by (cases e) (simp_all add: wrap_try_def)

text \<open>
  A truthy top-level error leaves the call as \<open>INTERNAL_ERROR\<close>, its text behind the
  prefix of the \<^verbatim>\<open>except Exception\<close> clause; a response with no such error and a
  result that is no dict with an \<open>error\<close> key returns the result unchanged.
\<close>

lemma send_request_top_level_error:
  assumes "ensure_connected E s = (Inr u, s1)"
    and "exchange B E s1 m p = (Inr (JObj kvs), s2)"
    and "map_of kvs ''error'' = Some err" and "truthy err"
  shows "send_request B E s m p =
           (Inl (McpError INTERNAL_ERROR (''Swift service error: '' @ py_str B err)), s2)"
  by (simp add: send_request_response [OF assms(1,2)] interpret_top_level_error [OF assms(3,4)]
      wrap_try_def)

lemma send_request_embedded_error:
  assumes "ensure_connected E s = (Inr u, s1)"
    and "exchange B E s1 m p = (Inr (JObj kvs), s2)"
    and "map_of kvs ''error'' = None \<or> (\<exists>err. map_of kvs ''error'' = Some err \<and> \<not> truthy err)"
    and "map_of kvs ''result'' = Some (JObj rkvs)"
    and "map_of rkvs ''error'' = Some rerr"
  shows "send_request B E s m p =
           (Inl (McpError INTERNAL_ERROR (''Swift service error: '' @ py_str B rerr)), s2)"
  using assms(5)
  by (simp add: send_request_response [OF assms(1,2)] interpret_result [OF assms(3,4)]
      wrap_try_def)

text \<open>
  C2. The claim: a truthy top-level error raises the remote-service error
  (\<open>INTERNAL_ERROR\<close>) with the error's message, an error embedded in a dict result
  raises the remote-validation error (\<open>INVALID_PARAMS\<close>) with its message, anything
  else returns the result unchanged. The \<^verbatim>\<open>raise\<close> of line 196 is inside the
  \<^verbatim>\<open>try\<close> whose \<^verbatim>\<open>except Exception\<close> clause (line 213) catches \<^verbatim>\<open>McpError\<close> too:
  for the worker's answer \<^verbatim>\<open>{"result": {"error": "unknown usr"}}\<close> the call leaves
  with code \<open>INTERNAL_ERROR\<close> and the message behind the prefix
  \<^verbatim>\<open>Swift service error: \<close>, not with \<open>INVALID_PARAMS\<close>.
\<close>

theorem send_request_embedded_error_is_internal:
  "fst (send_request (stub_builtins embedded_error_line embedded_error_response)
          (quiet_env embedded_error_line) connected ''get_occurrences''
          (JObj [(''usr'', JStr ''s:x''), (''roles'', JStr ''reference'')]))
   = Inl (McpError INTERNAL_ERROR ''Swift service error: unknown usr'')"
  by (simp add: send_request_connected wrap_try_def interpret_response_def
      embedded_error_response_def py_in_def py_getitem_def py_str_def)

text \<open>
  A top-level error that is falsy is passed over: with a result that is no dict with an
  \<open>error\<close> key the call returns the result unchanged.
\<close>

lemma send_request_falsy_error_result:
  assumes "ensure_connected E s = (Inr u, s1)"
    and "exchange B E s1 m p = (Inr (JObj kvs), s2)"
    and "map_of kvs ''error'' = Some err" and "\<not> truthy err"
    and "map_of kvs ''result'' = Some result"
    and "\<And>rkvs. result = JObj rkvs \<Longrightarrow> map_of rkvs ''error'' = None"
  shows "send_request B E s m p = (Inr result, s2)"
proof -
  have "interpret_response B (JObj kvs) =
     (case result of
        JObj rkvs \<Rightarrow>
          (case map_of rkvs ''error'' of
             None \<Rightarrow> Inr result
           | Some rerr \<Rightarrow> Inl (McpError INVALID_PARAMS (py_str B rerr)))
      | _ \<Rightarrow> Inr result)"
    using assms(3,4,5) by (intro interpret_result) auto
  then have "interpret_response B (JObj kvs) = Inr result"
    using assms(6) by (cases result) auto
  then show ?thesis
    by (simp add: send_request_response [OF assms(1,2)] wrap_try_def)
qed

lemma send_request_falsy_error_example:
  "send_request (stub_builtins falsy_error_line falsy_error_response)
      (quiet_env falsy_error_line) connected ''symbol_occurrences''
      (JObj [(''filePath'', JStr ''/a.swift''), (''lineNumber'', JStr ''3'')])
    = (Inr (JObj [(''symbols'', JArr [])]),
       connected\<lparr>effects := [Write 1 (''<request>'' @ [CHR 0x0A]), Drain 1, Readline 1]\<rparr>)"
  by (simp add: send_request_connected wrap_try_def interpret_response_def
      falsy_error_response_def py_in_def py_getitem_def)

text \<open>
  C10. The claim: the two error entry points differ on falsy values: a falsy top-level
  error is passed over and the call goes on to the result, and a result dict that has an
  \<open>error\<close> key raises the validation error even when the value is falsy. The code
  passes the falsy top-level error over (\<open>send_request_falsy_error_result\<close>) and
  raises for the falsy embedded one, and line 196 raises it as \<open>INVALID_PARAMS\<close>; but
  the \<^verbatim>\<open>except Exception\<close> clause of the same \<^verbatim>\<open>try\<close> (line 213) catches that
  \<^verbatim>\<open>McpError\<close>: for the worker's answer \<^verbatim>\<open>{"error": null, "result": {"error": null}}\<close>
  the call leaves with code \<open>INTERNAL_ERROR\<close> and the message
  \<^verbatim>\<open>Swift service error: None\<close>, not with the validation error. It is the defect of C2
  (\<open>send_request_embedded_error\<close> gives the outcome for every such response).
\<close>

theorem falsy_embedded_error_is_internal:
  "fst (send_request (stub_builtins null_error_line null_error_response)
          (quiet_env null_error_line) connected ''is_available''
          (JObj [(''projectName'', JStr ''App'')]))
   = Inl (McpError INTERNAL_ERROR ''Swift service error: None'')"
  by (simp add: send_request_connected wrap_try_def interpret_response_def
      null_error_response_def py_in_def py_getitem_def py_str_def)

subsection \<open>Validation in the tool functions\<close>

lemma filter_invalid_empty:
  "(filter (\<lambda>role. role \<notin> set vs) roles = []) = (set roles \<subseteq> set vs)"
  by (auto simp: filter_empty_conv)

text \<open>
  C5. \<^verbatim>\<open>get_occurrences\<close>: when some role is outside reference and definition, the
  call raises \<open>INVALID_PARAMS\<close> and the service state, its effects included, is
  the one it was given, whatever the outside would have answered: nothing was sent. When
  every role is valid, the call is the dispatch of \<^verbatim>\<open>get_occurrences\<close> with the
  \<open>usr\<close> and the roles joined by commas.
\<close>

theorem get_occurrences_validates_roles:
  "get_occurrences B E s usr roles =
     (if set roles \<subseteq> {''reference'', ''definition''} then
        tool_result ''Failed to get symbol occurrences: ''
          (send_request B E s ''get_occurrences''
             (JObj [(''usr'', JStr usr), (''roles'', JStr (join '','' roles))]))
      else
        (Inl (McpError INVALID_PARAMS
                (''Invalid roles: ''
                 @ py_repr B (JArr (map JStr
                     (filter (\<lambda>r. r \<noteq> ''reference'' \<and> r \<noteq> ''definition'') roles)))
                 @ ''. Must be one of: ''
                 @ py_repr B (JArr [JStr ''reference'', JStr ''definition'']))), s))"
proof -
  have v: "set valid_roles = {''reference'', ''definition''}"
    by (simp add: valid_roles_def)
  have f: "filter (\<lambda>role. role \<notin> set valid_roles) roles
             = filter (\<lambda>r. r \<noteq> ''reference'' \<and> r \<noteq> ''definition'') roles"
    by (simp add: valid_roles_def)
  show ?thesis
    unfolding get_occurrences_def Let_def
    using filter_invalid_empty [of valid_roles roles]
    by (simp add: v f valid_roles_def)
qed

text \<open>The decimal text of a natural number reads back as that number.\<close>

lemma str_nat_value: "foldl (\<lambda>a c. 10 * a + (of_char c - 48)) 0 (str_nat n) = n"
proof (induction n rule: str_nat.induct)
  case (1 n)
  show ?case
  proof (cases "n < 10")
    case True
    then show ?thesis by (subst str_nat.simps) (simp add: digit_def)
  next
    case False
    have d: "of_char (digit (n mod 10)) = 48 + n mod 10"
      by (simp add: digit_def)
    show ?thesis
      using False "1.IH" by (subst str_nat.simps) (simp add: d)
  qed
qed

text \<open>
  The decimal text of a number from 1 on has more than \<open>k\<close> digits exactly when the
  number is at least \<open>10 ^ k\<close>.
\<close>

declare str_nat.simps [simp del]

lemma str_nat_digits: "1 \<le> n \<Longrightarrow> (k < length (str_nat n)) = (10 ^ k \<le> n)"
proof (induction n arbitrary: k rule: str_nat.induct)
  case (1 n)
  show ?case
  proof (cases "n < 10")
    case True
    have "(10 ^ k \<le> n) = (k = 0)"
    proof (cases k)
      case 0
      then show ?thesis using "1.prems" by simp
    next
      case (Suc j)
      have "(1::nat) \<le> 10 ^ j" by simp
      then have "(10::nat) * 1 \<le> 10 * 10 ^ j" by (rule mult_le_mono2)
      then have "\<not> 10 * 10 ^ j \<le> n" using True by linarith
      then show ?thesis using Suc by simp
    qed
    then show ?thesis
      using True by (subst str_nat.simps) auto
  next
    case False
    then have d: "1 \<le> n div 10" by simp
    have l: "length (str_nat n) = Suc (length (str_nat (n div 10)))"
      using False by (subst str_nat.simps) simp
    show ?thesis
    proof (cases k)
      case 0
      then show ?thesis using "1.prems" l by simp
    next
      case (Suc j)
      have "(j < length (str_nat (n div 10))) = (10 ^ j \<le> n div 10)"
        using "1.IH" [OF False d] .
      also have "\<dots> = (10 ^ j * 10 \<le> n)"
        by (simp add: less_eq_div_iff_mult_less_eq)
      finally show ?thesis
        by (simp add: l Suc mult.commute)
    qed
  qed
qed

text \<open>
  C6, as stated: a non-positive or non-integer line number is rejected before any
  request is sent, and a positive integer is converted to its string form and
  dispatched. \<^verbatim>\<open>True\<close> is no line number, and the check of line 260 lets it through
  (\<^verbatim>\<open>isinstance(True, int)\<close> holds and \<^verbatim>\<open>True < 1\<close> does not): the request is sent,
  with the text \<^verbatim>\<open>True\<close> as its \<^verbatim>\<open>lineNumber\<close>.
\<close>

theorem symbol_occurrences_accepts_true_counterexample:
  "symbol_occurrences (stub_builtins available_line available_response)
      (quiet_env available_line) connected ''/a.swift'' (JBool True)
   = send_request (stub_builtins available_line available_response)
      (quiet_env available_line) connected ''symbol_occurrences''
      (JObj [(''filePath'', JStr ''/a.swift''), (''lineNumber'', JStr ''True'')])
   \<and> symbol_occurrences (stub_builtins available_line available_response)
      (quiet_env available_line) connected ''/a.swift'' (JBool True)
   = (Inr (JBool True),
      connected\<lparr>effects := [Write 1 (''<request>'' @ [CHR 0x0A]), Drain 1, Readline 1]\<rparr>)"
  by (simp add: symbol_occurrences_def line_number_ok_def str_checked_def py_str_def
      send_request_connected tool_result_def wrap_try_def interpret_response_def
      available_response_def py_in_def py_getitem_def)

text \<open>
  C6, amended: a line number that is no instance of int (None, a float, a string, a
  list, a dict) and one whose value is below 1 (an int below 1, and \<^verbatim>\<open>False\<close>) are
  rejected with \<open>INVALID_PARAMS\<close> and the service state, its effects included, is as
  it was given: nothing was sent. An int from 1 on is dispatched as its decimal text
  when \<^verbatim>\<open>str\<close> gives one, that is, when it has no more decimal digits than the
  interpreter's limit (4300 by default, 0 for none); beyond the limit the call raises
  \<open>INTERNAL_ERROR\<close> with the text of the \<^verbatim>\<open>ValueError\<close> and nothing is sent.
  \<^verbatim>\<open>True\<close> is an int to \<^verbatim>\<open>isinstance\<close> and is dispatched as its text \<^verbatim>\<open>True\<close>.
\<close>

theorem symbol_occurrences_validates_line:
  "symbol_occurrences B E s filePath (JInt n) =
     (if 1 \<le> n then
        (if 0 < int_max_str_digits B \<and> int_max_str_digits B < length (str_nat (nat n)) then
           (Inl (McpError INTERNAL_ERROR
                   (''Failed to get symbol occurrences: '' @ int_str_error B)), s)
         else
           tool_result ''Failed to get symbol occurrences: ''
             (send_request B E s ''symbol_occurrences''
                (JObj [(''filePath'', JStr filePath), (''lineNumber'', JStr (str_int n))])))
      else (Inl (McpError INVALID_PARAMS ''lineNumber must be a positive integer''), s))
   \<and> symbol_occurrences B E s filePath (JFloat f) =
       (Inl (McpError INVALID_PARAMS ''lineNumber must be a positive integer''), s)
   \<and> symbol_occurrences B E s filePath JNull =
       (Inl (McpError INVALID_PARAMS ''lineNumber must be a positive integer''), s)
   \<and> symbol_occurrences B E s filePath (JStr x) =
       (Inl (McpError INVALID_PARAMS ''lineNumber must be a positive integer''), s)
   \<and> symbol_occurrences B E s filePath (JArr xs) =
       (Inl (McpError INVALID_PARAMS ''lineNumber must be a positive integer''), s)
   \<and> symbol_occurrences B E s filePath (JObj kvs) =
       (Inl (McpError INVALID_PARAMS ''lineNumber must be a positive integer''), s)
   \<and> symbol_occurrences B E s filePath (JBool b) =
       (if b then
          tool_result ''Failed to get symbol occurrences: ''
            (send_request B E s ''symbol_occurrences''
               (JObj [(''filePath'', JStr filePath), (''lineNumber'', JStr ''True'')]))
        else (Inl (McpError INVALID_PARAMS ''lineNumber must be a positive integer''), s))"
proof -
  have i: "symbol_occurrences B E s filePath (JInt n) =
     (if 1 \<le> n then
        (if 0 < int_max_str_digits B \<and> int_max_str_digits B < length (str_nat (nat n)) then
           (Inl (McpError INTERNAL_ERROR
                   (''Failed to get symbol occurrences: '' @ int_str_error B)), s)
         else
           tool_result ''Failed to get symbol occurrences: ''
             (send_request B E s ''symbol_occurrences''
                (JObj [(''filePath'', JStr filePath), (''lineNumber'', JStr (str_int n))])))
      else (Inl (McpError INVALID_PARAMS ''lineNumber must be a positive integer''), s))"
  proof (cases "1 \<le> n")
    case True
    then have "nat \<bar>n\<bar> = nat n" by simp
    with True show ?thesis
      by (simp add: symbol_occurrences_def line_number_ok_def str_checked_def)
  next
    case False
    then show ?thesis
      by (simp add: symbol_occurrences_def line_number_ok_def)
  qed
  have r: "symbol_occurrences B E s filePath v =
       (Inl (McpError INVALID_PARAMS ''lineNumber must be a positive integer''), s)"
    if "int_value v = None" for v
    using that by (simp add: symbol_occurrences_def line_number_ok_def)
  have b: "symbol_occurrences B E s filePath (JBool b) =
       (if b then
          tool_result ''Failed to get symbol occurrences: ''
            (send_request B E s ''symbol_occurrences''
               (JObj [(''filePath'', JStr filePath), (''lineNumber'', JStr ''True'')]))
        else (Inl (McpError INVALID_PARAMS ''lineNumber must be a positive integer''), s))"
    by (simp add: symbol_occurrences_def line_number_ok_def str_checked_def py_str_def)
  show ?thesis
    using i b by (simp add: r)
qed

subsection \<open>Stopping\<close>

lemma terminate_process_effects:
  "effects (terminate_process E s) =
     effects s @
     (case swift_process s of
        None \<Rightarrow> []
      | Some pid \<Rightarrow>
          Killpg pid SIGTERM #
          (case sigterm E of
             ProcessLookupError \<Rightarrow> [Killpg pid SIGKILL]
           | Delivered \<Rightarrow>
               ProcWait pid #
               (case proc_wait E of Exited \<Rightarrow> [] | TimeoutExpired \<Rightarrow> [Killpg pid SIGKILL])))"
  by (simp add: terminate_process_def force_kill_def emit_def Let_def
      split: option.splits signal_outcome.splits wait_outcome.splits)

lemma terminate_process_fields:
  "swift_process (terminate_process E s) = None"
  "reader (terminate_process E s) = reader s"
  "writer (terminate_process E s) = writer s"
  by (simp_all add: terminate_process_def force_kill_def emit_def Let_def
      split: option.splits signal_outcome.splits wait_outcome.splits)

lemma terminate_process_none:
  "swift_process s = None \<Longrightarrow> terminate_process E s = s"
  by (simp add: terminate_process_def)

lemma close_writer_none: "writer s = None \<Longrightarrow> close_writer E s = (Inr (), s)"
  by (simp add: close_writer_def)

lemma close_writer_some:
  "writer s = Some w \<Longrightarrow>
   close_writer E s =
     ((case wait_closed E of Some e \<Rightarrow> Inl e | None \<Rightarrow> Inr ()),
      s\<lparr>writer := Some (w\<lparr>closing := True\<rparr>),
        effects := effects s @ [WriterClose (conn w), WaitClosed (conn w)]\<rparr>)"
  by (simp add: close_writer_def emit_def Let_def split: option.splits)

text \<open>What \<^verbatim>\<open>stop\<close> does, in every case.\<close>

lemma stop_cases:
  "stop E s =
     (case writer s of
        None \<Rightarrow> (Inr (), terminate_process E s)
      | Some w \<Rightarrow>
          (case wait_closed E of
             Some e \<Rightarrow>
               (Inl e, s\<lparr>writer := Some (w\<lparr>closing := True\<rparr>),
                         effects := effects s @ [WriterClose (conn w), WaitClosed (conn w)]\<rparr>)
           | None \<Rightarrow>
               (Inr (), terminate_process E
                          (s\<lparr>writer := Some (w\<lparr>closing := True\<rparr>),
                             effects := effects s @ [WriterClose (conn w), WaitClosed (conn w)]\<rparr>))))"
  by (simp add: stop_def close_writer_none close_writer_some split: option.splits)

text \<open>
  C7, as stated: \<^verbatim>\<open>stop\<close> with no worker running is a no-op that does not raise, and
  with a worker it always clears the stored process. Both fail where closing the
  stored writer raises: \<^verbatim>\<open>await self.writer.wait_closed()\<close> stands before the
  process is looked at and nothing catches what it raises. On a connected service the
  worker's pid stays stored; on a stopped service (no process, the closed writer still
  stored) the second \<^verbatim>\<open>stop\<close> closes the writer again and raises.
\<close>

theorem stop_aborts_on_close_failure_counterexample:
  "stop reset_env connected =
     (Inl (PyException ''Connection lost''),
      \<lparr>reader = Some 1, writer = Some \<lparr>conn = 1, closing = True\<rparr>,
       swift_process = Some 4242, effects = [WriterClose 1, WaitClosed 1]\<rparr>)
   \<and> stop reset_env stopped =
     (Inl (PyException ''Connection lost''),
      \<lparr>reader = Some 1, writer = Some \<lparr>conn = 1, closing = True\<rparr>,
       swift_process = None, effects = [WriterClose 1, WaitClosed 1]\<rparr>)"
  by (simp add: stop_def close_writer_def connected_def stopped_def reset_env_def quiet_env_def emit_def)

text \<open>
  C7, amended: when no writer is stored or closing it does not raise, \<^verbatim>\<open>stop\<close> does
  not raise and leaves no process stored. Its calls are the closing of the writer (if
  one is stored), then, if a process is stored, SIGTERM to its group, followed by SIGKILL
  when the process was not found, or by a wait, followed by SIGKILL when the wait timed
  out. With neither a process nor a writer stored it is a no-op. \<^verbatim>\<open>_cleanup\<close> leaves
  no process stored in every case, and is a no-op when none is stored.
\<close>

theorem stop_clears_worker:
  assumes "writer s = None \<or> wait_closed E = None"
  shows "fst (stop E s) = Inr ()
       \<and> swift_process (snd (stop E s)) = None
       \<and> effects (snd (stop E s)) =
           effects s
           @ (case writer s of None \<Rightarrow> [] | Some w \<Rightarrow> [WriterClose (conn w), WaitClosed (conn w)])
           @ (case swift_process s of
                None \<Rightarrow> []
              | Some pid \<Rightarrow>
                  Killpg pid SIGTERM #
                  (case sigterm E of
                     ProcessLookupError \<Rightarrow> [Killpg pid SIGKILL]
                   | Delivered \<Rightarrow>
                       ProcWait pid #
                       (case proc_wait E of
                          Exited \<Rightarrow> []
                        | TimeoutExpired \<Rightarrow> [Killpg pid SIGKILL])))
       \<and> (swift_process s = None \<and> writer s = None \<longrightarrow> stop E s = (Inr (), s))
       \<and> swift_process (cleanup E s) = None
       \<and> (swift_process s = None \<longrightarrow> cleanup E s = s)"
proof (cases "writer s")
  case None
  then show ?thesis
    by (simp add: stop_def close_writer_none terminate_process_fields
        terminate_process_effects terminate_process_none cleanup_def)
next
  case (Some w)
  with assms have "wait_closed E = None" by simp
  with Some show ?thesis
    by (simp add: stop_def close_writer_some terminate_process_fields
        terminate_process_effects terminate_process_none cleanup_def)
qed


theorem stop_clears_worker_witness:
  "stop vanished_env connected =
     (Inr (), \<lparr>reader = Some 1, writer = Some \<lparr>conn = 1, closing = True\<rparr>, swift_process = None,
               effects = [WriterClose 1, WaitClosed 1, Killpg 4242 SIGTERM, Killpg 4242 SIGKILL]\<rparr>)
   \<and> effects (snd (stop hanging_env connected)) =
       [WriterClose 1, WaitClosed 1, Killpg 4242 SIGTERM, ProcWait 4242, Killpg 4242 SIGKILL]
   \<and> swift_process (snd (stop hanging_env connected)) = None
   \<and> stop reset_env initial = (Inr (), initial)
   \<and> cleanup reset_env initial = initial
   \<and> swift_process (cleanup hanging_env connected) = None"
proof -
  have w1: "writer connected = None \<or> wait_closed vanished_env = None"
    and w2: "writer connected = None \<or> wait_closed hanging_env = None"
    and w3: "writer initial = None \<or> wait_closed reset_env = None"
    by (simp_all add: vanished_env_def hanging_env_def quiet_env_def initial_def)
  have i: "swift_process initial = None \<and> writer initial = None"
    by (simp add: initial_def)
  note t1 = stop_clears_worker [OF w1]
  note t2 = stop_clears_worker [OF w2]
  note t3 = stop_clears_worker [OF w3]
  have r: "reader (snd (stop vanished_env connected)) = Some 1"
    "writer (snd (stop vanished_env connected)) = Some \<lparr>conn = 1, closing = True\<rparr>"
    by (simp_all add: stop_cases connected_def vanished_env_def quiet_env_def terminate_process_fields)
  have e1: "stop vanished_env connected =
     (Inr (), \<lparr>reader = Some 1, writer = Some \<lparr>conn = 1, closing = True\<rparr>, swift_process = None,
               effects = [WriterClose 1, WaitClosed 1, Killpg 4242 SIGTERM, Killpg 4242 SIGKILL]\<rparr>)"
    using t1 r
    by (intro prod_eqI service.equality)
       (simp_all add: connected_def vanished_env_def quiet_env_def)
  show ?thesis
    using e1 t2 t3 i
    by (simp add: connected_def hanging_env_def quiet_env_def initial_def)
qed


text \<open>\<^verbatim>\<open>stop\<close> is \<open>stop_under\<close> with a \<^verbatim>\<open>close()\<close> that does not raise.\<close>

lemma stop_under_None: "stop_under None E s = stop E s"
  by (simp add: stop_under_def stop_cases emit_def Let_def split: option.splits)


text \<open>
  Under a running event loop the handler does nothing: \<^verbatim>\<open>asyncio.run\<close> raises before
  \<^verbatim>\<open>stop\<close> starts, so there is no close, no signal and no exit.
\<close>

lemma handle_shutdown_loop_running:
  "loop_running C \<Longrightarrow>
   handle_shutdown C E s =
     (Inl (PyException ''asyncio.run() cannot be called from a running event loop''), s)"
  by (simp add: handle_shutdown_def)




subsection \<open>Starting again\<close>

lemma ensure_connected_noop:
  "swift_process s \<noteq> None \<Longrightarrow> reader s \<noteq> None \<Longrightarrow> writer s \<noteq> None \<Longrightarrow>
   ensure_connected E s = (Inr (), s)"
  by (auto simp: ensure_connected_def)

lemma stop_connected:
  "stop (quiet_env l) connected =
     (Inr (), \<lparr>reader = Some 1, writer = Some \<lparr>conn = 1, closing = True\<rparr>, swift_process = None,
               effects = [WriterClose 1, WaitClosed 1, Killpg 4242 SIGTERM, ProcWait 4242]\<rparr>)"
  by (simp add: stop_def close_writer_def terminate_process_def connected_def quiet_env_def emit_def)

lemma restart_opens_nothing:
  assumes "reader s = Some r" and "writer s = Some w"
    and "stop E s = (Inr (), s1)" and "spawn E' = Inr pid"
  shows "ensure_connected E' s1 =
           (Inr (), s1\<lparr>swift_process := Some pid, effects := effects s1 @ [Popen, Sleep]\<rparr>)
         \<and> reader s1 = Some r \<and> writer s1 = Some (w\<lparr>closing := True\<rparr>)"
proof -
  from assms(2,3) have s1: "s1 = terminate_process E
      (s\<lparr>writer := Some (w\<lparr>closing := True\<rparr>),
         effects := effects s @ [WriterClose (conn w), WaitClosed (conn w)]\<rparr>)"
    by (auto simp: stop_cases split: option.splits)
  have h: "reader s1 = Some r" "writer s1 = Some (w\<lparr>closing := True\<rparr>)" "swift_process s1 = None"
    using assms(1) by (simp_all add: s1 terminate_process_fields)
  show ?thesis
    using h assms(4) by (simp add: ensure_connected_def start_def connect_def emit_def)
qed

text \<open>
  C3. The claim: after \<^verbatim>\<open>stop\<close>, the next call starts the worker afresh and
  reconnects, so that it can succeed. \<^verbatim>\<open>stop\<close> closes the writer and clears
  \<^verbatim>\<open>swift_process\<close>, and assigns neither \<^verbatim>\<open>reader\<close> nor \<^verbatim>\<open>writer\<close>; the next
  \<^verbatim>\<open>ensure_connected\<close> spawns a worker, and the \<^verbatim>\<open>connect\<close> inside \<^verbatim>\<open>start\<close> finds
  both handles stored and opens nothing, although the outside would have accepted a
  connection. The service is left with the writer it closed, and the request of the
  call is written to it.
\<close>

theorem restart_after_stop_keeps_closed_writer:
  "ensure_connected (quiet_env []) (snd (stop (quiet_env []) connected)) =
     (Inr (), \<lparr>reader = Some 1, writer = Some \<lparr>conn = 1, closing = True\<rparr>,
               swift_process = Some 4243,
               effects = [WriterClose 1, WaitClosed 1, Killpg 4242 SIGTERM, ProcWait 4242,
                          Popen, Sleep]\<rparr>)
   \<and> send_request (stub_builtins [] JNull) drop_env (snd (stop (quiet_env []) connected))
       ''is_available'' (JObj [(''projectName'', JStr ''App'')]) =
     (Inl (McpError INTERNAL_ERROR ''Swift service error: Connection lost''),
      \<lparr>reader = Some 1, writer = Some \<lparr>conn = 1, closing = True\<rparr>,
       swift_process = Some 4243,
       effects = [WriterClose 1, WaitClosed 1, Killpg 4242 SIGTERM, ProcWait 4242,
                  Popen, Sleep, Write 1 (''<request>'' @ [CHR 0x0A]), Drain 1]\<rparr>)"
  unfolding stop_connected snd_conv
  by (simp add: send_request_def try_body_def exchange_def wrap_try_def stub_builtins_def
      ensure_connected_def start_def connect_def emit_def quiet_env_def drop_env_def)


subsection \<open>A call that loses the connection\<close>

lemma exchange_io_failure:
  assumes "reader s = Some r" and "writer s = Some w"
    and "json_dumps B (build_request (request_id E) m p) = Inr line"
    and "io_failure E = Some e"
  shows "exchange B E s m p =
     (Inl e,
      s\<lparr>effects := effects s @
          Write (conn w) (line @ [CHR 0x0A]) #
          (case write_result E of
             Some x \<Rightarrow> []
           | None \<Rightarrow>
               Drain (conn w) #
               (case drain_result E of Some x \<Rightarrow> [] | None \<Rightarrow> [Readline r]))\<rparr>)"
  using assms
  by (auto simp: exchange_def io_failure_def emit_def Let_def split: option.splits sum.splits)

text \<open>
  C4, as stated: a call that meets an input or output error fails and is not retried,
  and the next call's \<^verbatim>\<open>ensure_connected\<close> sets the worker or the connection up
  again, so that the next call reconnects and succeeds. The second half fails: nothing
  in the file clears \<^verbatim>\<open>reader\<close>, \<^verbatim>\<open>writer\<close> or \<^verbatim>\<open>swift_process\<close> after a failed
  exchange, so the next \<^verbatim>\<open>ensure_connected\<close> finds all three stored and does
  nothing. After a lost connection the next call writes to the same connection, opens
  none (the outside would have accepted one), and fails the same way.
\<close>

theorem no_reconnect_after_io_failure_counterexample:
  "send_request (stub_builtins [] JNull) drop_env
     (snd (send_request (stub_builtins [] JNull) drop_env connected ''is_available''
             (JObj [(''projectName'', JStr ''App'')])))
     ''is_available'' (JObj [(''projectName'', JStr ''App'')]) =
   (Inl (McpError INTERNAL_ERROR ''Swift service error: Connection lost''),
    connected\<lparr>effects := [Write 1 (''<request>'' @ [CHR 0x0A]), Drain 1,
                            Write 1 (''<request>'' @ [CHR 0x0A]), Drain 1]\<rparr>)"
  by (simp add: send_request_def ensure_connected_def try_body_def exchange_def connected_def
      stub_builtins_def drop_env_def quiet_env_def emit_def wrap_try_def)

text \<open>
  C4, amended: on a started and connected service, a call whose write, drain or
  readline raises fails with an \<^verbatim>\<open>McpError\<close> of code \<open>INTERNAL_ERROR\<close> that carries
  the text of the exception, after one write and at most one drain and one readline
  (no retry). It leaves the stored process and handles as they were, and the next
  \<^verbatim>\<open>ensure_connected\<close>, whatever the outside, returns at once with the state
  unchanged: it starts a worker or opens a connection only when none is stored.
\<close>

theorem io_failure_fails_call_and_keeps_handles:
  assumes "swift_process s = Some pid" and "reader s = Some r" and "writer s = Some w"
    and "json_dumps B (build_request (request_id E) m p) = Inr line"
    and "io_failure E = Some (PyException t)"
  shows "send_request B E s m p =
     (Inl (McpError INTERNAL_ERROR (''Swift service error: '' @ t)),
      s\<lparr>effects := effects s @
          Write (conn w) (line @ [CHR 0x0A]) #
          (case write_result E of
             Some x \<Rightarrow> []
           | None \<Rightarrow>
               Drain (conn w) #
               (case drain_result E of Some x \<Rightarrow> [] | None \<Rightarrow> [Readline r]))\<rparr>)
   \<and> ensure_connected E' (snd (send_request B E s m p)) = (Inr (), snd (send_request B E s m p))"
proof -
  have ec: "ensure_connected E s = (Inr (), s)"
    using assms(1-3) by (simp add: ensure_connected_noop)
  have sr: "send_request B E s m p =
     (Inl (McpError INTERNAL_ERROR (''Swift service error: '' @ t)),
      s\<lparr>effects := effects s @
          Write (conn w) (line @ [CHR 0x0A]) #
          (case write_result E of
             Some x \<Rightarrow> []
           | None \<Rightarrow>
               Drain (conn w) #
               (case drain_result E of Some x \<Rightarrow> [] | None \<Rightarrow> [Readline r]))\<rparr>)"
    by (simp add: send_request_def ec try_body_def exchange_io_failure [OF assms(2-5)] wrap_try_def)
  show ?thesis
    unfolding sr using assms(1-3) by (simp add: ensure_connected_noop)
qed

theorem io_failure_fails_call_and_keeps_handles_witness:
  "send_request (stub_builtins [] JNull) drop_env connected ''is_available''
       (JObj [(''projectName'', JStr ''App'')]) =
     (Inl (McpError INTERNAL_ERROR ''Swift service error: Connection lost''),
      connected\<lparr>effects := [Write 1 (''<request>'' @ [CHR 0x0A]), Drain 1]\<rparr>)
   \<and> ensure_connected (quiet_env available_line)
       (connected\<lparr>effects := [Write 1 (''<request>'' @ [CHR 0x0A]), Drain 1]\<rparr>) =
     (Inr (), connected\<lparr>effects := [Write 1 (''<request>'' @ [CHR 0x0A]), Drain 1]\<rparr>)"
proof -
  have h1: "swift_process connected = Some 4242"
    and h2: "reader connected = Some 1"
    and h3: "writer connected = Some \<lparr>conn = 1, closing = False\<rparr>"
    by (simp_all add: connected_def)
  have h4: "json_dumps (stub_builtins [] JNull)
              (build_request (request_id drop_env) ''is_available''
                 (JObj [(''projectName'', JStr ''App'')])) = Inr ''<request>''"
    by (simp add: stub_builtins_def)
  have h5: "io_failure drop_env = Some (PyException ''Connection lost'')"
    by (simp add: io_failure_def drop_env_def quiet_env_def)
  have d: "write_result drop_env = None" "drain_result drop_env = Some (PyException ''Connection lost'')"
    by (simp_all add: drop_env_def quiet_env_def)
  note t = io_failure_fails_call_and_keeps_handles [OF h1 h2 h3 h4 h5, of "quiet_env available_line"]
  have e: "effects connected = []"
    by (simp add: connected_def)
  from t have a: "send_request (stub_builtins [] JNull) drop_env connected ''is_available''
       (JObj [(''projectName'', JStr ''App'')]) =
     (Inl (McpError INTERNAL_ERROR ''Swift service error: Connection lost''),
      connected\<lparr>effects := [Write 1 (''<request>'' @ [CHR 0x0A]), Drain 1]\<rparr>)"
    by (simp add: d e)
  from t have "ensure_connected (quiet_env available_line)
       (snd (send_request (stub_builtins [] JNull) drop_env connected ''is_available''
          (JObj [(''projectName'', JStr ''App'')]))) =
     (Inr (), snd (send_request (stub_builtins [] JNull) drop_env connected ''is_available''
          (JObj [(''projectName'', JStr ''App'')])))"
    by (rule conjunct2)
  then have b: "ensure_connected (quiet_env available_line)
       (connected\<lparr>effects := [Write 1 (''<request>'' @ [CHR 0x0A]), Drain 1]\<rparr>) =
     (Inr (), connected\<lparr>effects := [Write 1 (''<request>'' @ [CHR 0x0A]), Drain 1]\<rparr>)"
    unfolding a snd_conv .
  show ?thesis
    using a b by (rule conjI)
qed

subsection \<open>The request line round trip\<close>

lemma hex_value_hex_digit: "d < 16 \<Longrightarrow> hex_value (hex_digit d) = Some d"
proof -
  assume "d < 16"
  then have m: "(48 + d) mod 256 = 48 + d" "(87 + d) mod 256 = 87 + d"
    by simp_all
  show ?thesis
    using \<open>d < 16\<close> unfolding hex_value_def hex_digit_def Let_def
    by (simp add: m del: of_nat_add)
qed


lemma hex_recompose:
  assumes "n < 65536"
  shows "((n div 4096 mod 16 * 16 + n div 256 mod 16) * 16 + n div 16 mod 16) * 16 + n mod 16 = (n::nat)"
proof -
  define a where "a = n div 16"
  define b where "b = a div 16"
  define c where "c = b div 16"
  define x where "x = n mod 16"
  define y where "y = a mod 16"
  define z where "z = b mod 16"
  have n: "n = 16 * a + x" by (simp add: a_def x_def)
  have a: "a = 16 * b + y" by (simp add: b_def y_def)
  have b: "b = 16 * c + z" by (simp add: c_def z_def)
  have b': "n div 256 = b"
    using div_mult2_eq [of n 16 16] by (simp add: a_def b_def)
  have c': "n div 4096 = c"
    using div_mult2_eq [of n 256 16] by (simp add: b' c_def)
  have "c < 16"
    using assms unfolding c' [symmetric] by (simp add: less_mult_imp_div_less)
  then have cm: "c mod 16 = c" by simp
  have "((c * 16 + z) * 16 + y) * 16 + x = n"
    using n a b by simp
  then show ?thesis
    unfolding c' b' cm
    by (simp only: a_def [symmetric] x_def [symmetric] y_def [symmetric] z_def [symmetric])
qed

lemma hex4_value:
  assumes "n < 65536"
  shows "decode_uXXXX (hex4 n @ r) = Some n"
proof -
  have d: "hex_value (hex_digit (n div 4096 mod 16)) = Some (n div 4096 mod 16)"
    "hex_value (hex_digit (n div 256 mod 16)) = Some (n div 256 mod 16)"
    "hex_value (hex_digit (n div 16 mod 16)) = Some (n div 16 mod 16)"
    "hex_value (hex_digit (n mod 16)) = Some (n mod 16)"
    by (rule hex_value_hex_digit, simp)+
  show ?thesis
    unfolding decode_uXXXX_def hex4_def
    by (simp only: append_Cons append_Nil list.case d prod.case option.case
        hex_recompose [OF assms])
qed


declare scanstring.simps [simp del]

lemma scan_quote: "scanstring (CHR 0x22 # r) = Some ([], r)"
  by (subst scanstring.simps) simp

lemma scan_plain:
  assumes "c \<noteq> CHR 0x22" and "c \<noteq> CHR 0x5C"
    and "0x20 \<le> (of_char c :: nat)" and "(of_char c :: nat) < 0x80"
  shows "scanstring (c # r) = cons_result (of_char c) (scanstring r)"
  using assms by (subst scanstring.simps) simp

lemma scan_backslash:
  assumes "e \<noteq> CHR ''u''" and "backslash e = Some ch"
  shows "scanstring (CHR 0x5C # e # r) = cons_result ch (scanstring r)"
  using assms by (subst scanstring.simps) simp

lemma scan_u_single:
  assumes "decode_uXXXX r1 = Some uni" and "uni < 0xD800 \<or> 0xDBFF < uni"
  shows "scanstring (CHR 0x5C # CHR ''u'' # r1) = cons_result uni (scanstring (drop 4 r1))"
  using assms by (subst scanstring.simps) auto

lemma scan_u_pair:
  assumes "decode_uXXXX r1 = Some uni" and "0xD800 \<le> uni" and "uni \<le> 0xDBFF"
    and "take 2 (drop 4 r1) = [CHR 0x5C, CHR ''u'']"
    and "decode_uXXXX (drop 6 r1) = Some uni2" and "0xDC00 \<le> uni2" and "uni2 \<le> 0xDFFF"
  shows "scanstring (CHR 0x5C # CHR ''u'' # r1) =
           cons_result (0x10000 + ((uni - 0xD800) * 1024 + (uni2 - 0xDC00)))
             (scanstring (drop 10 r1))"
  using assms by (subst scanstring.simps) simp

lemma length_hex4 [simp]: "length (hex4 n) = 4"
  by (simp add: hex4_def)

lemma scan_encode_char:
  assumes "unicode_scalar c"
  shows "scanstring (encode_char c @ r) = cons_result c (scanstring r)"
proof -
  consider (short) "c \<in> {0x5C, 0x22, 0x08, 0x0C, 0x0A, 0x0D, 0x09}"
    | (plain) "c \<notin> {0x5C, 0x22, 0x08, 0x0C, 0x0A, 0x0D, 0x09}" "0x20 \<le> c" "c \<le> 0x7E"
    | (bmp) "c \<notin> {0x5C, 0x22, 0x08, 0x0C, 0x0A, 0x0D, 0x09}" "\<not> (0x20 \<le> c \<and> c \<le> 0x7E)" "c < 0x10000"
    | (astral) "0x10000 \<le> c"
    by fastforce
  then show ?thesis
  proof cases
    case short
    then show ?thesis
      by (auto simp: encode_char_def scan_backslash backslash_def)
  next
    case plain
    then have m: "c mod 256 = c" by simp
    from plain have e: "encode_char c = [char_of c]"
      by (simp add: encode_char_def)
    have o: "of_char (char_of c) = c"
      using m by simp
    have n1: "char_of c \<noteq> CHR 0x22" "char_of c \<noteq> CHR 0x5C"
    proof -
      show "char_of c \<noteq> CHR 0x22"
      proof
        assume "char_of c = CHR 0x22"
        then have "(of_char (char_of c) :: nat) = of_char (CHR 0x22)" by (rule arg_cong)
        then show False using plain(1) unfolding o by simp
      qed
      show "char_of c \<noteq> CHR 0x5C"
      proof
        assume "char_of c = CHR 0x5C"
        then have "(of_char (char_of c) :: nat) = of_char (CHR 0x5C)" by (rule arg_cong)
        then show False using plain(1) unfolding o by simp
      qed
    qed
    show ?thesis
      unfolding e using plain n1 by (simp add: scan_plain o del: of_char_of)
  next
    case bmp
    then have e: "encode_char c = u_escape c"
      by (auto simp: encode_char_def)
    have s: "c < 0xD800 \<or> 0xDBFF < c"
      using assms by (auto simp: unicode_scalar_def)
    have "c < 65536" using bmp by simp
    then show ?thesis
      unfolding e u_escape_def by (simp add: scan_u_single [OF hex4_value s])
  next
    case astral
    define v where "v = c - 0x10000"
    have v: "v < 0x100000" "c = 0x10000 + v"
      using assms astral by (auto simp: unicode_scalar_def v_def)
    have e: "encode_char c = u_escape (0xD800 + v div 1024 mod 1024) @ u_escape (0xDC00 + v mod 1024)"
      using astral by (simp add: encode_char_def v_def)
    have q: "v div 1024 mod 1024 = v div 1024"
      using v(1) by (simp add: less_mult_imp_div_less)
    have h: "0xD800 + v div 1024 < 65536" "0xDC00 + v mod 1024 < 65536"
      "0xD800 + v div 1024 \<le> 0xDBFF"
      using v(1) by (simp_all add: less_mult_imp_div_less)
    have "scanstring (CHR 0x5C # CHR ''u'' # (hex4 (0xD800 + v div 1024) @ u_escape (0xDC00 + v mod 1024) @ r))
        = cons_result (0x10000 + ((0xD800 + v div 1024 - 0xD800) * 1024 + (0xDC00 + v mod 1024 - 0xDC00)))
            (scanstring (drop 10 (hex4 (0xD800 + v div 1024) @ u_escape (0xDC00 + v mod 1024) @ r)))"
      by (rule scan_u_pair [OF hex4_value [OF h(1)]])
         (use h in \<open>simp_all add: u_escape_def hex4_value\<close>)
    then show ?thesis
      unfolding e q by (simp add: u_escape_def v(2))
  qed
qed


lemma cons_result_Some [simp]: "cons_result c (Some (s, r)) = Some (c # s, r)"
  by (simp add: cons_result_def)

lemma scan_encoded:
  "unicode_text s \<Longrightarrow> scanstring (concat (map encode_char s) @ CHR 0x22 # r) = Some (s, r)"
proof (induction s)
  case Nil
  show ?case by (simp add: scan_quote)
next
  case (Cons c s)
  then have "unicode_scalar c" and "unicode_text s"
    by (simp_all add: unicode_text_def)
  then show ?case
    using Cons.IH by (simp add: scan_encode_char)
qed

lemma scan_basestring:
  "unicode_text s \<Longrightarrow> scanstring (tl (encode_basestring_ascii s) @ r) = Some (s, r)"
  by (simp add: encode_basestring_ascii_def scan_encoded)

lemma dict_set_fresh: "k \<notin> fst ` set d \<Longrightarrow> dict_set k v d = d @ [(k, v)]"
  by (induction d) auto

lemma foldl_dict_set:
  "distinct (map fst (d @ ps)) \<Longrightarrow> foldl (\<lambda>d (k, v). dict_set k v d) d ps = d @ ps"
proof (induction ps arbitrary: d)
  case Nil
  show ?case by simp
next
  case (Cons p ps)
  obtain k v where p: "p = (k, v)" by (cases p)
  have "k \<notin> fst ` set d"
    using Cons.prems by (auto simp: p)
  then have "dict_set k v d = d @ [(k, v)]"
    by (rule dict_set_fresh)
  moreover have "distinct (map fst ((d @ [(k, v)]) @ ps))"
    using Cons.prems by (simp add: p)
  ultimately show ?case
    using Cons.IH [of "d @ [(k, v)]"] by (simp add: p)
qed

lemma dict_of_pairs_distinct: "distinct (map fst ps) \<Longrightarrow> dict_of_pairs ps = ps"
  using foldl_dict_set [of "[]" ps] by (simp add: dict_of_pairs_def)


lemma dumps_obj: "dumps (WObj kvs) = CHR ''{'' # join '', '' (map member_text kvs) @ [CHR ''}'']"
proof -
  have "(\<lambda>(k, t). encode_basestring_ascii k @ '': '' @ t) \<circ> map_prod id dumps = member_text"
    by (rule ext) (simp add: member_text_def case_prod_beta)
  then show ?thesis by simp
qed

lemma skip_ws_keep: "\<not> is_ws c \<Longrightarrow> skip_ws (c # s) = c # s"
  by (simp add: skip_ws_def)

lemma skip_ws_space: "skip_ws (CHR '' '' # s) = skip_ws s"
  by (simp add: skip_ws_def is_ws_def)

lemma basestring_cons: "encode_basestring_ascii s = CHR 0x22 # tl (encode_basestring_ascii s)"
  by (simp add: encode_basestring_ascii_def)

lemma dumps_cons: "\<exists>c t. dumps v = c # t \<and> \<not> is_ws c"
  by (cases v) (auto simp: encode_basestring_ascii_def is_ws_def)

lemma skip_ws_dumps: "skip_ws (dumps v @ r) = dumps v @ r"
  using dumps_cons [of v] by (auto simp: skip_ws_keep)

lemma member_text_cons: "member_text kv = CHR 0x22 # tl (member_text kv)"
  by (simp add: member_text_def encode_basestring_ascii_def)

lemma join_members_cons:
  "kvs \<noteq> [] \<Longrightarrow> join '', '' (map member_text kvs) = CHR 0x22 # tl (join '', '' (map member_text kvs))"
proof (cases kvs)
  case Nil
  then show "kvs \<noteq> [] \<Longrightarrow> ?thesis" by simp
next
  case (Cons kv rest)
  then show ?thesis
    by (cases rest) (simp_all add: member_text_def encode_basestring_ascii_def)
qed

lemma parse_member_head:
  assumes k: "unicode_text k"
    and v: "parse_value n (dumps v @ r3) = Some (v, r3)"
  shows "parse_members (Suc n) (member_text (k, v) @ r3) =
     (case skip_ws r3 of
        [] \<Rightarrow> None
      | c4 # r4 \<Rightarrow>
          if c4 = CHR ''}'' then Some ([(k, v)], r4)
          else if c4 = CHR '','' then
            (case parse_members n (skip_ws r4) of
               None \<Rightarrow> None
             | Some (ps, r5) \<Rightarrow> Some ((k, v) # ps, r5))
          else None)"
proof -
  have t: "member_text (k, v) @ r3 =
      CHR 0x22 # (tl (encode_basestring_ascii k) @ (CHR '':'' # CHR '' '' # dumps v @ r3))"
    by (simp add: member_text_def encode_basestring_ascii_def)
  have c: "skip_ws (CHR '':'' # CHR '' '' # dumps v @ r3) = CHR '':'' # CHR '' '' # dumps v @ r3"
    by (simp add: skip_ws_keep is_ws_def)
  show ?thesis
    unfolding t
    by (simp add: parse_members.simps scan_basestring [OF k] c skip_ws_space skip_ws_dumps v)
qed


declare parse_value.simps [simp del] parse_members.simps [simp del]

lemma parse_members_text:
  assumes "kvs \<noteq> []"
    and "\<And>k v. (k, v) \<in> set kvs \<Longrightarrow> unicode_text k"
    and "\<And>k v n r. (k, v) \<in> set kvs \<Longrightarrow> length (dumps v) \<le> n \<Longrightarrow>
           parse_value n (dumps v @ r) = Some (v, r)"
    and "length (join '', '' (map member_text kvs)) < n"
  shows "parse_members n (join '', '' (map member_text kvs) @ CHR ''}'' # r) = Some (kvs, r)"
  using assms
proof (induction kvs arbitrary: n)
  case Nil
  then show ?case by simp
next
  case (Cons kv rest)
  obtain k v where kv: "kv = (k, v)" by (cases kv)
  obtain m where n: "n = Suc m"
    using Cons.prems(4) by (cases n) auto
  have k: "unicode_text k"
    using Cons.prems(2) [of k v] by (simp add: kv)
  have len: "length (dumps v) \<le> length (member_text (k, v))"
    by (simp add: member_text_def)
  show ?case
  proof (cases rest)
    case Nil
    have "length (dumps v) \<le> m"
      using Cons.prems(4) len by (simp add: Nil kv n)
    then have v: "parse_value m (dumps v @ CHR ''}'' # r) = Some (v, CHR ''}'' # r)"
      using Cons.prems(3) [of k v] by (simp add: kv)
    have "parse_members (Suc m) (member_text (k, v) @ CHR ''}'' # r) = Some ([(k, v)], r)"
      unfolding parse_member_head [OF k v]
      by (simp add: skip_ws_keep is_ws_def)
    then show ?thesis
      by (simp add: Nil kv n)
  next
    case (Cons kv2 rest2)
    let ?tail = "join '', '' (map member_text rest)"
    have t: "join '', '' (map member_text ((k, v) # rest)) = member_text (k, v) @ '', '' @ ?tail"
      by (simp add: Cons)
    have lt: "length ?tail < m"
      using Cons.prems(4) unfolding kv t n by simp
    have "length (dumps v) \<le> m"
      using Cons.prems(4) len unfolding kv t n by simp
    then have v: "parse_value m (dumps v @ ('', '' @ ?tail @ CHR ''}'' # r))
                 = Some (v, '', '' @ ?tail @ CHR ''}'' # r)"
      using Cons.prems(3) [of k v] by (simp add: kv)
    have ne: "rest \<noteq> []" by (simp add: Cons)
    have ih: "parse_members m (?tail @ CHR ''}'' # r) = Some (rest, r)"
    proof (rule Cons.IH [OF ne _ _ lt])
      show "unicode_text k'" if "(k', v') \<in> set rest" for k' v'
        using that Cons.prems(2) [of k' v'] by simp
      show "parse_value n' (dumps v' @ r') = Some (v', r')"
        if "(k', v') \<in> set rest" "length (dumps v') \<le> n'" for k' v' n' r'
        using that Cons.prems(3) [of k' v' n' r'] by simp
    qed
    obtain t' where t': "?tail = CHR 0x22 # t'"
      using join_members_cons [OF ne] by blast
    have sk: "skip_ws (CHR '' '' # ?tail @ CHR ''}'' # r) = ?tail @ CHR ''}'' # r"
      unfolding t' by (simp add: skip_ws_space skip_ws_keep is_ws_def)
    have "parse_members (Suc m) (member_text (k, v) @ ('', '' @ ?tail @ CHR ''}'' # r))
            = Some ((k, v) # rest, r)"
      unfolding parse_member_head [OF k v]
      by (simp add: skip_ws_keep is_ws_def sk ih)
    then show ?thesis
      unfolding kv n t by simp
  qed
qed


lemma parse_value_dumps:
  "wf_value v \<Longrightarrow> length (dumps v) \<le> n \<Longrightarrow> parse_value n (dumps v @ r) = Some (v, r)"
proof (induction v arbitrary: n r)
  case (WStr s)
  then obtain m where n: "n = Suc m"
    by (cases n) (auto simp: encode_basestring_ascii_def)
  have e: "dumps (WStr s) @ r = CHR 0x22 # (tl (encode_basestring_ascii s) @ r)"
    by (simp add: encode_basestring_ascii_def)
  show ?case
    unfolding e n using WStr.prems(1) by (simp add: parse_value.simps scan_basestring)
next
  case (WObj kvs)
  obtain m where n: "n = Suc m"
    using WObj.prems(2) by (cases n) auto
  have d: "distinct (map fst kvs)"
    using WObj.prems(1) by simp
  show ?case
  proof (cases "kvs = []")
    case True
    then show ?thesis
      by (simp add: n parse_value.simps skip_ws_keep is_ws_def)
  next
    case False
    let ?ms = "join '', '' (map member_text kvs)"
    obtain t' where t': "?ms = CHR 0x22 # t'"
      using join_members_cons [OF False] by blast
    have lt: "length ?ms < m"
      using WObj.prems(2) unfolding dumps_obj n by simp
    have pm: "parse_members m (?ms @ CHR ''}'' # r) = Some (kvs, r)"
    proof (rule parse_members_text [OF False _ _ lt])
      show "unicode_text k" if "(k, v) \<in> set kvs" for k v
        using that WObj.prems(1) by (auto simp: list_all_iff)
      show "parse_value n' (dumps v @ r') = Some (v, r')"
        if "(k, v) \<in> set kvs" "length (dumps v) \<le> n'" for k v n' r'
      proof (rule WObj.IH [OF that(1)])
        show "v \<in> Basic_BNFs.snds (k, v)" by simp
        show "wf_value v" using that(1) WObj.prems(1) by (auto simp: list_all_iff)
        show "length (dumps v) \<le> n'" by (rule that(2))
      qed
    qed
    have e: "dumps (WObj kvs) @ r = CHR ''{'' # (?ms @ CHR ''}'' # r)"
      unfolding dumps_obj by simp
    have sk: "skip_ws (?ms @ CHR ''}'' # r) = CHR 0x22 # (t' @ CHR ''}'' # r)"
      unfolding t' by (simp add: skip_ws_keep is_ws_def)
    have pm': "parse_members m (CHR 0x22 # (t' @ CHR ''}'' # r)) = Some (kvs, r)"
      using pm unfolding t' by simp
    show ?thesis
      unfolding e n
      by (simp add: parse_value.simps sk pm' dict_of_pairs_distinct [OF d])
  qed
qed

text \<open>Every well-formed value is read back from its line.\<close>

lemma loads_dumps:
  assumes "wf_value v"
  shows "loads (dumps v @ [CHR 0x0A]) = Some v"
proof -
  have "parse_value (length (dumps v @ [CHR 0x0A])) (dumps v @ [CHR 0x0A]) = Some (v, [CHR 0x0A])"
    using assms by (intro parse_value_dumps) simp_all
  then show ?thesis
    by (simp add: loads_def skip_ws_dumps) (simp add: skip_ws_def is_ws_def)
qed


lemma char_of_not_newline:
  assumes "(n::nat) mod 256 \<noteq> 10"
  shows "char_of n \<noteq> CHR 0x0A"
proof
  assume "char_of n = CHR 0x0A"
  then have "(of_char (char_of n) :: nat) = of_char (CHR 0x0A)" by (rule arg_cong)
  then show False using assms by simp
qed

lemma hex_digit_not_newline: "d < 16 \<Longrightarrow> hex_digit d \<noteq> CHR 0x0A"
  unfolding hex_digit_def by (auto intro!: char_of_not_newline)

lemma u_escape_no_newline: "CHR 0x0A \<notin> set (u_escape n)"
  using hex_digit_not_newline [of "n div 4096 mod 16"] hex_digit_not_newline [of "n div 256 mod 16"]
    hex_digit_not_newline [of "n div 16 mod 16"] hex_digit_not_newline [of "n mod 16"]
  by (auto simp: u_escape_def hex4_def)

lemma encode_char_no_newline: "CHR 0x0A \<notin> set (encode_char c)"
proof (cases "0x20 \<le> c \<and> c \<le> 0x7E")
  case True
  then have "c mod 256 \<noteq> 10" by simp
  then have "char_of c \<noteq> CHR 0x0A" by (rule char_of_not_newline)
  then show ?thesis
    using True u_escape_no_newline by (auto simp: encode_char_def)
next
  case False
  then show ?thesis
    using u_escape_no_newline by (auto simp: encode_char_def)
qed

lemma basestring_no_newline: "CHR 0x0A \<notin> set (encode_basestring_ascii s)"
  using encode_char_no_newline by (auto simp: encode_basestring_ascii_def)

lemma join_no_newline:
  "\<forall>x \<in> set xs. CHR 0x0A \<notin> set x \<Longrightarrow> CHR 0x0A \<notin> set (join '', '' xs)"
  by (induction "'', ''" xs rule: join.induct) auto

lemma dumps_no_newline: "CHR 0x0A \<notin> set (dumps v)"
proof (induction v)
  case (WStr s)
  show ?case by (simp add: basestring_no_newline)
next
  case (WObj kvs)
  have "CHR 0x0A \<notin> set (member_text kv)" if "kv \<in> set kvs" for kv
    using WObj.IH [of kv "snd kv"] that basestring_no_newline [of "fst kv"]
    by (cases kv) (auto simp: member_text_def)
  then have "CHR 0x0A \<notin> set (join '', '' (map member_text kvs))"
    by (intro join_no_newline) auto
  then show ?case
    unfolding dumps_obj by simp
qed

lemma unicode_text_cps: "unicode_text (cps s)"
proof -
  have "unicode_scalar (of_char c)" for c :: char
    using nat_of_char_less_256 [of c] unfolding unicode_scalar_def by linarith
  then show ?thesis
    by (simp add: unicode_text_def cps_def list_all_iff)
qed

lemma wf_request_value:
  assumes "unicode_text rid" and "unicode_text method"
    and "distinct (map fst params)"
    and "list_all (\<lambda>(k, v). unicode_text k \<and> unicode_text v) params"
  shows "wf_value (request_value rid method params)"
proof -
  have k: "distinct [cps ''id'', cps ''method'', cps ''params'']"
    by (simp add: cps_def)
  have p: "wf_value (WObj (map (\<lambda>(k, v). (k, WStr v)) params))"
    using assms(3,4) by (auto simp: list_all_iff comp_def case_prod_beta)
  show ?thesis
    unfolding request_value_def using assms(1,2) k p
    by (simp add: unicode_text_cps del: wf_value.simps(2)) (simp add: unicode_text_cps p)
qed

text \<open>
  The request that \<^verbatim>\<open>send_request\<close> builds (lines 172 to 176), for parameters that are
  strings, is \<open>request_value\<close> of its code points; so with a \<open>json_dumps\<close> that
  writes strings and dicts as \<open>dumps\<close> does, the line that \<open>exchange\<close> writes is
  \<open>encode_request\<close>, and \<open>loads\<close> reads the request back from it.
\<close>

lemma those_string_members:
  "those (map (\<lambda>(k, r). map_option (Pair (cps k)) r)
            (map (map_prod id to_wire) (map (\<lambda>(k, v). (k, JStr v)) ps)))
   = Some (map (\<lambda>(k, v). (cps k, WStr (cps v))) ps)"
  by (induction ps) (auto simp: case_prod_beta)

lemma to_wire_build_request:
  "to_wire (build_request rid method (JObj (map (\<lambda>(k, v). (k, JStr v)) ps)))
   = Some (request_value (cps rid) (cps method) (map (\<lambda>(k, v). (cps k, cps v)) ps))"
proof -
  have "to_wire (JObj (map (\<lambda>(k, v). (k, JStr v)) ps))
          = Some (WObj (map (\<lambda>(k, v). (cps k, WStr (cps v))) ps))"
    unfolding to_wire.simps those_string_members by simp
  moreover have "map (\<lambda>(k, v). (cps k, WStr (cps v))) ps
                   = map (\<lambda>(k, v). (k, WStr v)) (map (\<lambda>(k, v). (cps k, cps v)) ps)"
    by (simp add: case_prod_beta)
  ultimately have p: "to_wire (JObj (map (\<lambda>(k, v). (k, JStr v)) ps))
      = Some (WObj (map (\<lambda>(k, v). (k, WStr v)) (map (\<lambda>(k, v). (cps k, cps v)) ps)))"
    by simp
  have q: "to_wire (JObj [(''id'', JStr rid), (''method'', JStr method), (''params'', X)])
          = map_option (\<lambda>x. WObj [(cps ''id'', WStr (cps rid)), (cps ''method'', WStr (cps method)),
                                       (cps ''params'', x)]) (to_wire X)" for X
    by (cases "to_wire X") simp_all
  show ?thesis
    unfolding build_request_def request_value_def q p option.map ..
qed

lemma exchange_writes_request_line:
  assumes "writer s = Some w"
    and "\<And>v x. to_wire v = Some x \<Longrightarrow> json_dumps B v = Inr (dumps x)"
    and "distinct (map cps (map fst ps))"
  shows "\<exists>rest. effects (snd (exchange B E s method (JObj (map (\<lambda>(k, v). (k, JStr v)) ps))))
           = effects s
             @ Write (conn w)
                 (encode_request (cps (request_id E)) (cps method)
                    (map (\<lambda>(k, v). (cps k, cps v)) ps)) # rest"
    and "loads (encode_request (cps (request_id E)) (cps method)
                  (map (\<lambda>(k, v). (cps k, cps v)) ps))
         = Some (request_value (cps (request_id E)) (cps method)
                   (map (\<lambda>(k, v). (cps k, cps v)) ps))"
proof -
  let ?r = "request_value (cps (request_id E)) (cps method) (map (\<lambda>(k, v). (cps k, cps v)) ps)"
  have d: "json_dumps B (build_request (request_id E) method
             (JObj (map (\<lambda>(k, v). (k, JStr v)) ps))) = Inr (dumps ?r)"
    by (rule assms(2) [OF to_wire_build_request])
  show "\<exists>rest. effects (snd (exchange B E s method (JObj (map (\<lambda>(k, v). (k, JStr v)) ps))))
           = effects s
             @ Write (conn w)
                 (encode_request (cps (request_id E)) (cps method)
                    (map (\<lambda>(k, v). (cps k, cps v)) ps)) # rest"
    using assms(1)
    by (auto simp: exchange_def d emit_def Let_def encode_request_def
        split: option.splits sum.splits)
  have "wf_value ?r"
  proof (rule wf_request_value)
    show "distinct (map fst (map (\<lambda>(k, v). (cps k, cps v)) ps))"
      using assms(3) by (simp add: comp_def case_prod_beta)
    show "list_all (\<lambda>(k, v). unicode_text k \<and> unicode_text v)
            (map (\<lambda>(k, v). (cps k, cps v)) ps)"
      by (simp add: list_all_iff case_prod_beta unicode_text_cps)
  qed (rule unicode_text_cps)+
  then show "loads (encode_request (cps (request_id E)) (cps method)
                  (map (\<lambda>(k, v). (cps k, cps v)) ps)) = Some ?r"
    unfolding encode_request_def by (rule loads_dumps)
qed

text \<open>
  C9, as stated: for every request with string keys and string values, encoding it to
  one line and decoding that line gives the request again, character for character. A
  Python \<^verbatim>\<open>str\<close> can hold surrogate code points, and \<^verbatim>\<open>json.dumps\<close> writes a high
  surrogate followed by a low one as the same two \<^verbatim>\<open>\uXXXX\<close> escapes as the one code
  point the pair stands for: the two-character pattern U+D83D U+DE00 comes back as the
  one character U+1F600.
\<close>

theorem surrogate_pair_round_trip_counterexample:
  "loads (encode_request (cps ''140234'') (cps ''search_pattern'')
            [(cps ''pattern'', [0xD83D, 0xDE00])])
   = Some (request_value (cps ''140234'') (cps ''search_pattern'')
            [(cps ''pattern'', [0x1F600])])
   \<and> request_value (cps ''140234'') (cps ''search_pattern'') [(cps ''pattern'', [0x1F600])]
     \<noteq> request_value (cps ''140234'') (cps ''search_pattern'')
         [(cps ''pattern'', [0xD83D, 0xDE00])]"
proof -
  have h: "encode_char 0xD83D = u_escape 0xD83D" "encode_char 0xDE00 = u_escape 0xDE00"
    by (simp_all add: encode_char_def)
  have "(0x1F600 - 0x10000 :: nat) = 0xF600" by simp
  moreover have "(0xF600 :: nat) div 1024 mod 1024 = 0x3D" "(0xF600 :: nat) mod 1024 = 0x200"
    by simp_all
  ultimately have a: "encode_char 0x1F600 = u_escape 0xD83D @ u_escape 0xDE00"
    by (simp add: encode_char_def)
  have e: "encode_basestring_ascii [0xD83D, 0xDE00] = encode_basestring_ascii [0x1F600]"
    by (simp add: encode_basestring_ascii_def h a)
  have l: "encode_request (cps ''140234'') (cps ''search_pattern'')
             [(cps ''pattern'', [0xD83D, 0xDE00])]
           = encode_request (cps ''140234'') (cps ''search_pattern'')
             [(cps ''pattern'', [0x1F600])]"
    by (simp add: encode_request_def request_value_def e)
  have "unicode_text [0x1F600]"
    by (simp add: unicode_text_def unicode_scalar_def)
  then have "wf_value (request_value (cps ''140234'') (cps ''search_pattern'')
                         [(cps ''pattern'', [0x1F600])])"
    by (intro wf_request_value unicode_text_cps) (simp_all add: unicode_text_cps)
  then have "loads (encode_request (cps ''140234'') (cps ''search_pattern'')
                      [(cps ''pattern'', [0x1F600])])
             = Some (request_value (cps ''140234'') (cps ''search_pattern'')
                      [(cps ''pattern'', [0x1F600])])"
    unfolding encode_request_def by (rule loads_dumps)
  then show ?thesis
    unfolding l by (simp add: request_value_def)
qed

text \<open>
  C9, amended: a request with an id, a method and string parameters whose strings are
  Unicode text (no surrogate code points; a dict has no key twice), written by
  \<open>encode_request\<close> and read by \<open>loads\<close>, is the request again: the method and
  every key and value, code point for code point. The line is one line: the only line
  feed is the one that ends it.
\<close>

theorem request_round_trip:
  assumes "unicode_text rid" and "unicode_text method"
    and "distinct (map fst params)"
    and "list_all (\<lambda>(k, v). unicode_text k \<and> unicode_text v) params"
  shows "loads (encode_request rid method params) = Some (request_value rid method params)
       \<and> CHR 0x0A \<notin> set (dumps (request_value rid method params))"
  using wf_request_value [OF assms]
  unfolding encode_request_def by (simp add: loads_dumps dumps_no_newline)

theorem request_round_trip_witness:
  "loads (encode_request (cps ''140234'') (cps ''get_occurrences'')
            [(cps ''usr'', cps ''s:4main3FooV''), (cps ''roles'', cps ''reference,definition'')])
   = Some (request_value (cps ''140234'') (cps ''get_occurrences'')
            [(cps ''usr'', cps ''s:4main3FooV''), (cps ''roles'', cps ''reference,definition'')])"
proof -
  have d: "distinct (map fst [(cps ''usr'', cps ''s:4main3FooV''),
                               (cps ''roles'', cps ''reference,definition'')])"
    by (simp add: cps_def)
  have t: "list_all (\<lambda>(k, v). unicode_text k \<and> unicode_text v)
             [(cps ''usr'', cps ''s:4main3FooV''), (cps ''roles'', cps ''reference,definition'')]"
    by (simp add: unicode_text_cps)
  from request_round_trip [OF unicode_text_cps unicode_text_cps d t]
  show ?thesis by (rule conjunct1)
qed

end
